theory Spec2Isabelle
  imports Complex_Main
begin

section \<open>Numeric values\<close>

text \<open>
  The optimizer of \<^verbatim>\<open>climin/adam.py\<close> computes with Python floats and numpy arrays.
  Both are idealised here as real numbers: a \<open>Scalar\<close> is a Python float, an \<open>Array\<close>
  is a one-dimensional float ndarray. Rounding is not part of the model. The outcomes that
  leave the real numbers (a Python exception, or numpy's inf and nan) are values of
  \<open>exn\<close>, so that no total HOL operation (\<open>x / 0\<close>, \<open>sqrt\<close> of a negative number)
  stands in for them.
\<close>

datatype val = Scalar real | Array "real list"

datatype exn =
    ValueError string
  | ZeroDivisionError
  | NonFinite
  | External string

text \<open>
  \<open>ValueError\<close> and \<open>ZeroDivisionError\<close> are Python's. \<open>NonFinite\<close> marks the point
  where numpy would continue with inf or nan under a RuntimeWarning: the real-valued model
  stops there. \<open>External\<close> is any exception of the caller's gradient function (which may
  also raise the others).
\<close>

datatype warning = UserWarning string

definition shape_msg :: string where
  "shape_msg = ''operands could not be broadcast together''"

definition root_msg :: string where
  "root_msg = ''negative number cannot be raised to a fractional power''"

text \<open>Element-wise application of a function of one argument (\<open>c * x\<close>, \<open>x ** 2\<close>, \<open>x + o\<close>).\<close>

fun vmap :: "(real \<Rightarrow> real) \<Rightarrow> val \<Rightarrow> val" where
  "vmap f (Scalar x) = Scalar (f x)"
| "vmap f (Array xs) = Array (map f xs)"

text \<open>
  numpy broadcasting of a binary operation, for scalars and one-dimensional arrays: equal
  lengths combine element by element, a length-one array is stretched, anything else
  raises.
\<close>

fun broadcast :: "(real \<Rightarrow> real \<Rightarrow> real) \<Rightarrow> val \<Rightarrow> val \<Rightarrow> exn + val" where
  "broadcast f (Scalar x) (Scalar y) = Inr (Scalar (f x y))"
| "broadcast f (Scalar x) (Array ys) = Inr (Array (map (f x) ys))"
| "broadcast f (Array xs) (Scalar y) = Inr (Array (map (\<lambda>x. f x y) xs))"
| "broadcast f (Array xs) (Array ys) =
     (if length xs = length ys then Inr (Array (map2 f xs ys))
      else if length xs = 1 then Inr (Array (map (f (xs ! 0)) ys))
      else if length ys = 1 then Inr (Array (map (\<lambda>x. f x (ys ! 0)) xs))
      else Inl (ValueError shape_msg))"

definition vadd :: "val \<Rightarrow> val \<Rightarrow> exn + val" where
  "vadd = broadcast (+)"

definition vmul :: "val \<Rightarrow> val \<Rightarrow> exn + val" where
  "vmul = broadcast (*)"

fun has_zero :: "val \<Rightarrow> bool" where
  "has_zero (Scalar y) = (y = 0)"
| "has_zero (Array ys) = (0 \<in> set ys)"

fun is_scalar :: "val \<Rightarrow> bool" where
  "is_scalar (Scalar x) = True"
| "is_scalar (Array xs) = False"

text \<open>
  True division. The shapes are checked first. A zero divisor raises
  \<open>ZeroDivisionError\<close> between two Python floats; with an array on either side numpy
  yields inf or nan.
\<close>

definition vdiv :: "val \<Rightarrow> val \<Rightarrow> exn + val" where
  "vdiv a b =
     (case broadcast (/) a b of
        Inl e \<Rightarrow> Inl e
      | Inr r \<Rightarrow>
          if has_zero b
          then Inl (if is_scalar a \<and> is_scalar b then ZeroDivisionError else NonFinite)
          else Inr r)"

text \<open>
  \<open>x ** 0.5\<close>: the square root, where it is real. For a negative Python float,
  Python 2 raises \<open>ValueError\<close> here, and Python 3 yields a complex number, which the
  in-place subtraction from the float array rejects later in the same iteration with no
  attribute assigned in between; the model raises at the root. For an array with a
  negative element numpy yields nan.
\<close>

fun pow_half :: "val \<Rightarrow> exn + val" where
  "pow_half (Scalar x) =
     (if x < 0 then Inl (ValueError root_msg) else Inr (Scalar (sqrt x)))"
| "pow_half (Array xs) =
     (if list_ex (\<lambda>x. x < 0) xs then Inl NonFinite else Inr (Array (map sqrt xs)))"

text \<open>
  \<open>w -= step\<close> on an ndarray \<open>w\<close>: the subtraction is written into \<open>w\<close>, so the
  broadcast result must have the shape of \<open>w\<close>.
\<close>

fun isub :: "real list \<Rightarrow> val \<Rightarrow> exn + real list" where
  "isub w (Scalar x) = Inr (map (\<lambda>y. y - x) w)"
| "isub w (Array xs) =
     (if length xs = length w then Inr (map2 (-) w xs)
      else if length xs = 1 then Inr (map (\<lambda>y. y - xs ! 0) w)
      else Inl (ValueError shape_msg))"

text \<open>
  Reading a value at position \<open>i\<close> of a broadcast: a scalar and a length-one array have
  the same element everywhere.
\<close>

fun elem :: "val \<Rightarrow> nat \<Rightarrow> real" where
  "elem (Scalar x) i = x"
| "elem (Array xs) i = (if length xs = 1 then xs ! 0 else xs ! i)"

text \<open>A value fits a shape \<open>n\<close> when it broadcasts to an array of length \<open>n\<close>.\<close>

fun fits :: "val \<Rightarrow> nat \<Rightarrow> bool" where
  "fits (Scalar x) n = True"
| "fits (Array xs) n = (length xs = n \<or> length xs = 1)"

fun nonneg :: "val \<Rightarrow> bool" where
  "nonneg (Scalar x) = (0 \<le> x)"
| "nonneg (Array xs) = list_all (\<lambda>x. 0 \<le> x) xs"

fun positive :: "val \<Rightarrow> bool" where
  "positive (Scalar x) = (0 < x)"
| "positive (Array xs) = list_all (\<lambda>x. 0 < x) xs"


section \<open>The optimizer object\<close>

text \<open>
  The parameter vector \<open>wrt\<close> is an ndarray owned by the caller: the object holds a
  reference to it (an address of the store) and the array's contents live in the store.
  \<open>args\<close> holds the items that the argument iterator has yet to produce, each a pair
  \<open>(args, kwargs)\<close>. The gradient function reads the contents of the parameter vector and
  the item, and returns a direction or raises.
\<close>

type_synonym store = "nat \<Rightarrow> real list"

record ('a, 'k) adam =
  wrt :: nat
  args :: "('a \<times> 'k) list"
  n_iter :: nat
  fprime :: "real list \<Rightarrow> 'a \<Rightarrow> 'k \<Rightarrow> exn + val"
  step_rate :: val
  decay_mom1 :: real
  decay_mom2 :: real
  offset :: real
  momentum :: bool
  est_mom1_b :: val
  est_mom2_b :: val
  decay_mom1_pow :: real
  decay_mom2_pow :: real
  step :: val

text \<open>The dictionary that \<open>_iterate\<close> yields after a step.\<close>

record ('a, 'k) info =
  info_n_iter :: nat
  info_gradient :: val
  info_args :: 'a
  info_kwargs :: 'k

datatype ('a, 'k) pull =
    Yielded "('a, 'k) info"
  | Raised exn
  | StopIteration


section \<open>Construction\<close>

definition decay_mom1_msg :: string where
  "decay_mom1_msg = ''decay_mom1 has to lie in (0, 1]''"

definition decay_mom2_msg :: string where
  "decay_mom2_msg = ''decay_mom2 has to lie in (0, 1]''"

definition stability_msg :: string where
  "stability_msg =
     ''constraint from convergence analysis for adam not satisfied; check original paper to see if you really want to do this.''"

definition decay_msg :: string where
  "decay_msg =
     ''decay parameter was used in a previous version of Adam and no longer has any effect.''"

text \<open>
  \<open>Adam.__init__\<close>. The result is the exception raised, or the warnings emitted (in
  order) and the object. Every attribute is assigned after the last check, so an
  exception leaves no object behind. The stability check computes
  \<open>(1 - decay_mom1 * 2) / (1 - decay_mom2) ** 0.5\<close> on Python floats, with the root
  and the division of the previous section; \<open>elem q 0\<close> reads the float back.

  Modelled from the spec: the constructor of the base class
  (\<open>super(Adam, self).__init__(wrt, args=args)\<close>; \<^verbatim>\<open>climin/base.py\<close> is not among
  the sources). It stores the parameter vector and the argument source, and starts the
  iteration counter \<open>n_iter\<close> at 0 (the documentation of \<open>Adam\<close> agrees: ``Number of
  iterations, starting at 0''). An omitted argument source stands for an endless stream
  of empty items; \<open>args0\<close> is then the part of it that the driver pulls.
\<close>

definition Adam_init ::
  "nat \<Rightarrow> (real list \<Rightarrow> 'a \<Rightarrow> 'k \<Rightarrow> exn + val) \<Rightarrow> val \<Rightarrow> 'd option \<Rightarrow> real \<Rightarrow> real \<Rightarrow> bool
     \<Rightarrow> real \<Rightarrow> ('a \<times> 'k) list \<Rightarrow> exn + (warning list \<times> ('a, 'k) adam)" where
  "Adam_init wrt0 fprime0 step_rate0 decay dm1 dm2 momentum0 offset0 args0 =
     (if \<not> (0 < dm1 \<and> dm1 \<le> 1) then Inl (ValueError decay_mom1_msg)
      else if \<not> (0 < dm2 \<and> dm2 \<le> 1) then Inl (ValueError decay_mom2_msg)
      else
        case pow_half (Scalar (1 - dm2)) of
          Inl e \<Rightarrow> Inl e
        | Inr r \<Rightarrow>
            (case vdiv (Scalar (1 - dm1 * 2)) r of
               Inl e \<Rightarrow> Inl e
             | Inr q \<Rightarrow>
                 let w1 = (if \<not> elem q 0 < 1 then [UserWarning stability_msg] else []);
                     w2 = (if decay \<noteq> None then [UserWarning decay_msg] else [])
                 in Inr (w1 @ w2,
                      \<lparr> wrt = wrt0, args = args0, n_iter = 0,
                        fprime = fprime0, step_rate = step_rate0,
                        decay_mom1 = dm1, decay_mom2 = dm2,
                        offset = offset0, momentum = momentum0,
                        est_mom1_b = Scalar 0, est_mom2_b = Scalar 0,
                        decay_mom1_pow = 1, decay_mom2_pow = 1,
                        step = Scalar 0 \<rparr>)))"


section \<open>One iteration\<close>

text \<open>
  The step of standard mode (\<open>not self.momentum\<close>), from the attributes as they stand
  after the moments and decay powers have been updated. Python evaluates the left
  operand of each operator first.
\<close>

definition step_standard :: "('a, 'k) adam \<Rightarrow> exn + val" where
  "step_standard s =
     (case pow_half (Scalar (1 - decay_mom2_pow s)) of
        Inl e \<Rightarrow> Inl e
      | Inr r \<Rightarrow>
     (case vmul (step_rate s) r of
        Inl e \<Rightarrow> Inl e
      | Inr sr \<Rightarrow>
     (case vdiv sr (Scalar (1 - decay_mom1_pow s)) of
        Inl e \<Rightarrow> Inl e
      | Inr rate_t \<Rightarrow>
     (case vmul rate_t (est_mom1_b s) of
        Inl e \<Rightarrow> Inl e
      | Inr num \<Rightarrow>
     (case pow_half (est_mom2_b s) of
        Inl e \<Rightarrow> Inl e
      | Inr sq \<Rightarrow> vdiv num (vmap (\<lambda>x. x + offset s) sq))))))"

text \<open>The step of Nesterov mode (\<open>self.momentum\<close>).\<close>

definition step_nesterov :: "('a, 'k) adam \<Rightarrow> val \<Rightarrow> exn + val" where
  "step_nesterov s gradient =
     (let dm1 = decay_mom1 s in
      case vdiv (vmap (\<lambda>x. (1 - dm1) * x) (est_mom1_b s))
                (Scalar (1 - (1 - dm1) * decay_mom1_pow s)) of
        Inl e \<Rightarrow> Inl e
      | Inr t1 \<Rightarrow>
     (case vdiv (vmap (\<lambda>x. dm1 * x) gradient) (Scalar (1 - decay_mom1_pow s)) of
        Inl e \<Rightarrow> Inl e
      | Inr t2 \<Rightarrow>
     (case vadd t1 t2 of
        Inl e \<Rightarrow> Inl e
      | Inr est_mom1 \<Rightarrow>
     (case vdiv (est_mom2_b s) (Scalar (1 - decay_mom2_pow s)) of
        Inl e \<Rightarrow> Inl e
      | Inr est_mom2 \<Rightarrow>
     (case vmul (step_rate s) est_mom1 of
        Inl e \<Rightarrow> Inl e
      | Inr num \<Rightarrow>
     (case pow_half est_mom2 of
        Inl e \<Rightarrow> Inl e
      | Inr sq \<Rightarrow> vdiv num (vmap (\<lambda>x. x + offset s) sq)))))))"

text \<open>
  One pass through the body of the loop of \<open>_iterate\<close>: what a pull on the generator
  does, up to the next \<open>yield\<close>. Attributes assigned before an exception keep their new
  values, so the state is returned with every outcome.
\<close>

definition next_pull ::
  "store \<times> ('a, 'k) adam \<Rightarrow> (store \<times> ('a, 'k) adam) \<times> ('a, 'k) pull" where
  "next_pull st =
     (case st of (h, s) \<Rightarrow>
      (case args s of
         [] \<Rightarrow> ((h, s), StopIteration)
       | (a, k) # rest \<Rightarrow>
           let s0 = s\<lparr>args := rest\<rparr>;
               dm1 = decay_mom1 s0;
               dm2 = decay_mom2 s0;
               est_mom1_b_m1 = est_mom1_b s0;
               est_mom2_b_m1 = est_mom2_b s0;
               s1 = s0\<lparr>decay_mom1_pow := decay_mom1_pow s0 * (1 - dm1)\<rparr>;
               s2 = s1\<lparr>decay_mom2_pow := decay_mom2_pow s1 * (1 - dm2)\<rparr>
           in
           (case fprime s2 (h (wrt s2)) a k of
              Inl e \<Rightarrow> ((h, s2), Raised e)
            | Inr gradient \<Rightarrow>
           (case vadd (vmap (\<lambda>x. dm1 * x) gradient)
                      (vmap (\<lambda>x. (1 - dm1) * x) est_mom1_b_m1) of
              Inl e \<Rightarrow> ((h, s2), Raised e)
            | Inr m \<Rightarrow>
           let s3 = s2\<lparr>est_mom1_b := m\<rparr> in
           (case vadd (vmap (\<lambda>x. dm2 * x) (vmap (\<lambda>x. x ^ 2) gradient))
                      (vmap (\<lambda>x. (1 - dm2) * x) est_mom2_b_m1) of
              Inl e \<Rightarrow> ((h, s3), Raised e)
            | Inr v \<Rightarrow>
           let s4 = s3\<lparr>est_mom2_b := v\<rparr> in
           (case (if \<not> momentum s4 then step_standard s4
                  else step_nesterov s4 gradient) of
              Inl e \<Rightarrow> ((h, s4), Raised e)
            | Inr stp \<Rightarrow>
           (case isub (h (wrt s4)) stp of
              Inl e \<Rightarrow> ((h, s4), Raised e)
            | Inr w \<Rightarrow>
           let h' = h(wrt s4 := w);
               s5 = s4\<lparr>step := stp\<rparr>;
               s6 = s5\<lparr>n_iter := n_iter s5 + 1\<rparr>
           in ((h', s6),
               Yielded \<lparr> info_n_iter = n_iter s6, info_gradient = gradient,
                         info_args = a, info_kwargs = k \<rparr>))))))))"

text \<open>
  A driver that pulls \<open>n\<close> times on one generator. The generator ends with the first
  exception and with the exhaustion of the argument iterator; \<open>None\<close> says that all
  \<open>n\<close> pulls yielded.
\<close>

fun iterate ::
  "nat \<Rightarrow> store \<times> ('a, 'k) adam \<Rightarrow> (store \<times> ('a, 'k) adam) \<times> exn option option" where
  "iterate 0 st = (st, None)"
| "iterate (Suc n) st =
     (case next_pull st of
        (st', Yielded i) \<Rightarrow> iterate n st'
      | (st', Raised e) \<Rightarrow> (st', Some (Some e))
      | (st', StopIteration) \<Rightarrow> (st', Some None))"


section \<open>Checkpoints\<close>

text \<open>The class attribute \<open>state_fields\<close>: the names of the attributes of a checkpoint.\<close>

definition state_fields :: "string list" where
  "state_fields =
     [''n_iter'', ''step_rate'', ''decay_mom1'', ''decay_mom2'', ''step'', ''offset'',
      ''est_mom1_b'', ''est_mom2_b'', ''decay_mom1_pow'', ''decay_mom2_pow'']"

record checkpoint =
  ck_n_iter :: nat
  ck_step_rate :: val
  ck_decay_mom1 :: real
  ck_decay_mom2 :: real
  ck_step :: val
  ck_offset :: real
  ck_est_mom1_b :: val
  ck_est_mom2_b :: val
  ck_decay_mom1_pow :: real
  ck_decay_mom2_pow :: real

text \<open>
  Modelled from the spec: the checkpoint operations of the base class
  (\<^verbatim>\<open>climin/base.py\<close> is not among the sources). The specification describes
  \<open>extractState\<close> as a snapshot of exactly the fields of \<open>state_fields\<close>, and
  \<open>restoreState\<close> as overwriting those fields without touching the references to the
  parameter vector or to the gradient function.
\<close>

definition extractState :: "('a, 'k) adam \<Rightarrow> checkpoint" where
  "extractState s =
     \<lparr> ck_n_iter = n_iter s, ck_step_rate = step_rate s,
       ck_decay_mom1 = decay_mom1 s, ck_decay_mom2 = decay_mom2 s,
       ck_step = step s, ck_offset = offset s,
       ck_est_mom1_b = est_mom1_b s, ck_est_mom2_b = est_mom2_b s,
       ck_decay_mom1_pow = decay_mom1_pow s, ck_decay_mom2_pow = decay_mom2_pow s \<rparr>"

definition restoreState :: "checkpoint \<Rightarrow> ('a, 'k) adam \<Rightarrow> ('a, 'k) adam" where
  "restoreState c s =
     s\<lparr> n_iter := ck_n_iter c, step_rate := ck_step_rate c,
        decay_mom1 := ck_decay_mom1 c, decay_mom2 := ck_decay_mom2 c,
        step := ck_step c, offset := ck_offset c,
        est_mom1_b := ck_est_mom1_b c, est_mom2_b := ck_est_mom2_b c,
        decay_mom1_pow := ck_decay_mom1_pow c, decay_mom2_pow := ck_decay_mom2_pow c \<rparr>"


section \<open>The specification's stability condition\<close>

text \<open>
  The condition as the specification words it, \<open>(1 - 2 * decay_mom1) / sqrt(decay_mom2) < 1\<close>,
  to be compared with the one \<open>Adam_init\<close> evaluates.
\<close>

definition spec_stability_condition :: "real \<Rightarrow> real \<Rightarrow> bool" where
  "spec_stability_condition dm1 dm2 = ((1 - 2 * dm1) / sqrt dm2 < 1)"


section \<open>Auxiliary notions for the proofs\<close>

text \<open>The object after the decay powers and both moments of an iteration have been assigned.\<close>

definition advanced :: "('a, 'k) adam \<Rightarrow> ('a \<times> 'k) list \<Rightarrow> val \<Rightarrow> val \<Rightarrow> ('a, 'k) adam" where
  "advanced s rest m v =
     s\<lparr>args := rest,
       decay_mom1_pow := decay_mom1_pow s * (1 - decay_mom1 s),
       decay_mom2_pow := decay_mom2_pow s * (1 - decay_mom2 s),
       est_mom1_b := m, est_mom2_b := v\<rparr>"

text \<open>The decay powers agree with the iteration counter.\<close>

definition powers_ok :: "('a, 'k) adam \<Rightarrow> bool" where
  "powers_ok s =
     (decay_mom1_pow s = (1 - decay_mom1 s) ^ n_iter s
      \<and> decay_mom2_pow s = (1 - decay_mom2 s) ^ n_iter s)"

text \<open>
  What every state reachable from the constructor satisfies, whether or not the pulls
  before it completed.
\<close>

definition safe_state :: "('a, 'k) adam \<Rightarrow> bool" where
  "safe_state s =
     (0 < decay_mom1 s \<and> decay_mom1 s \<le> 1 \<and> 0 < decay_mom2 s \<and> decay_mom2 s \<le> 1
      \<and> 0 \<le> decay_mom1_pow s \<and> decay_mom1_pow s \<le> 1
      \<and> 0 \<le> decay_mom2_pow s \<and> decay_mom2_pow s \<le> 1
      \<and> nonneg (est_mom2_b s))"


section \<open>A small run\<close>

text \<open>
  A gradient function for the examples: the item's positional argument scales the
  parameters, and the keyword argument makes the call fail.
\<close>

definition ex_fprime :: "real list \<Rightarrow> real \<Rightarrow> bool \<Rightarrow> exn + val" where
  "ex_fprime w a k =
     (if k then Inl (External ''gradient failed'') else Inr (Array (map (\<lambda>x. a * x) w)))"

definition ex_store :: store where
  "ex_store = (\<lambda>a. [])(0 := [1])"

definition ex_adam :: "bool \<Rightarrow> (real \<times> bool) list \<Rightarrow> (real, bool) adam" where
  "ex_adam mo items =
     \<lparr> wrt = 0, args = items, n_iter = 0,
       fprime = ex_fprime, step_rate = Scalar 1,
       decay_mom1 = 1 / 2, decay_mom2 = 1 / 4,
       offset = 1, momentum = mo,
       est_mom1_b = Scalar 0, est_mom2_b = Scalar 0,
       decay_mom1_pow = 1, decay_mom2_pow = 1,
       step = Scalar 0 \<rparr>"


section \<open>Element-wise reading of the array operations\<close>

lemmas ex_defs =
  ex_fprime_def ex_store_def ex_adam_def next_pull_def step_standard_def step_nesterov_def
  vadd_def vmul_def vdiv_def Let_def

lemma fits_vmap [simp]: "fits (vmap f v) n = fits v n"
  by (cases v) auto

lemma elem_vmap: "fits v n \<Longrightarrow> i < n \<Longrightarrow> elem (vmap f v) i = f (elem v i)"
  by (cases v) auto

lemma broadcast_fits:
  "broadcast f a b = Inr r \<Longrightarrow> fits r n \<Longrightarrow> fits a n \<and> fits b n"
  by (cases a; cases b) (auto split: if_splits)

lemma broadcast_elem:
  "broadcast f a b = Inr r \<Longrightarrow> fits r n \<Longrightarrow> i < n \<Longrightarrow> elem r i = f (elem a i) (elem b i)"
  by (cases a; cases b) (auto split: if_splits)

lemma vdiv_Inr:
  "vdiv a b = Inr r \<Longrightarrow> broadcast (/) a b = Inr r \<and> \<not> has_zero b"
  by (auto simp: vdiv_def split: sum.splits if_splits)

lemma has_zero_elem: "\<not> has_zero b \<Longrightarrow> fits b n \<Longrightarrow> i < n \<Longrightarrow> elem b i \<noteq> 0"
  by (cases b) (auto simp: in_set_conv_nth)

lemma pow_half_fits: "pow_half v = Inr r \<Longrightarrow> fits r n = fits v n"
  by (cases v) (auto split: if_splits)

lemma pow_half_elem:
  "pow_half v = Inr r \<Longrightarrow> fits v n \<Longrightarrow> i < n \<Longrightarrow> elem r i = sqrt (elem v i) \<and> 0 \<le> elem v i"
  by (cases v) (auto split: if_splits simp: list_ex_iff not_less)

lemma isub_Inr:
  "isub w stp = Inr w' \<Longrightarrow> length w' = length w \<and> fits stp (length w)"
  by (cases stp) (auto split: if_splits)

lemma isub_elem:
  "isub w stp = Inr w' \<Longrightarrow> i < length w \<Longrightarrow> w' ! i = w ! i - elem stp i"
  by (cases stp) (auto split: if_splits)

lemma next_pull_Yielded:
  assumes "next_pull (h, s) = ((h', s'), Yielded r)"
  shows "\<exists>a k rest g m v stp w.
    args s = (a, k) # rest \<and>
    fprime s (h (wrt s)) a k = Inr g \<and>
    vadd (vmap (\<lambda>x. decay_mom1 s * x) g) (vmap (\<lambda>x. (1 - decay_mom1 s) * x) (est_mom1_b s)) = Inr m \<and>
    vadd (vmap (\<lambda>x. decay_mom2 s * x) (vmap (\<lambda>x. x ^ 2) g)) (vmap (\<lambda>x. (1 - decay_mom2 s) * x) (est_mom2_b s)) = Inr v \<and>
    (if \<not> momentum s then step_standard (advanced s rest m v)
      else step_nesterov (advanced s rest m v) g) = Inr stp \<and>
    isub (h (wrt s)) stp = Inr w \<and>
    h' = h(wrt s := w) \<and>
    s' = (advanced s rest m v)\<lparr>step := stp, n_iter := n_iter s + 1\<rparr> \<and>
    r = \<lparr> info_n_iter = n_iter s + 1, info_gradient = g, info_args = a, info_kwargs = k \<rparr>"
  using assms
  unfolding next_pull_def Let_def advanced_def
  by (auto split: list.splits sum.splits prod.splits cong: if_cong)


lemma vmul_fits: "vmul a b = Inr r \<Longrightarrow> fits r n \<Longrightarrow> fits a n \<and> fits b n"
  unfolding vmul_def by (rule broadcast_fits)

lemma vmul_elem: "vmul a b = Inr r \<Longrightarrow> fits r n \<Longrightarrow> i < n \<Longrightarrow> elem r i = elem a i * elem b i"
  unfolding vmul_def by (rule broadcast_elem)

lemma vadd_fits: "vadd a b = Inr r \<Longrightarrow> fits r n \<Longrightarrow> fits a n \<and> fits b n"
  unfolding vadd_def by (rule broadcast_fits)

lemma vadd_elem: "vadd a b = Inr r \<Longrightarrow> fits r n \<Longrightarrow> i < n \<Longrightarrow> elem r i = elem a i + elem b i"
  unfolding vadd_def by (rule broadcast_elem)

lemma vdiv_fits: "vdiv a b = Inr r \<Longrightarrow> fits r n \<Longrightarrow> fits a n \<and> fits b n"
  by (drule vdiv_Inr) (auto dest: broadcast_fits)

lemma vdiv_elem:
  "vdiv a b = Inr r \<Longrightarrow> fits r n \<Longrightarrow> i < n \<Longrightarrow> elem r i = elem a i / elem b i \<and> elem b i \<noteq> 0"
  by (drule vdiv_Inr) (auto dest: broadcast_fits has_zero_elem simp: broadcast_elem)

lemma pow_half_Scalar: "pow_half (Scalar x) = Inr r \<Longrightarrow> r = Scalar (sqrt x) \<and> 0 \<le> x"
  by (auto split: if_splits)

lemma step_standard_elem:
  assumes "step_standard s = Inr stp" and "fits stp n" and "i < n"
  shows "elem stp i =
           elem (step_rate s) i * sqrt (1 - decay_mom2_pow s) / (1 - decay_mom1_pow s)
             * elem (est_mom1_b s) i / (sqrt (elem (est_mom2_b s) i) + offset s)"
    and "0 \<le> 1 - decay_mom2_pow s" and "1 - decay_mom1_pow s \<noteq> 0"
    and "0 \<le> elem (est_mom2_b s) i" and "sqrt (elem (est_mom2_b s) i) + offset s \<noteq> 0"
    and "fits (step_rate s) n" and "fits (est_mom1_b s) n" and "fits (est_mom2_b s) n"
proof -
  from assms(1) obtain r sr rate_t num sq where
    r: "pow_half (Scalar (1 - decay_mom2_pow s)) = Inr r" and
    sr: "vmul (step_rate s) r = Inr sr" and
    rate: "vdiv sr (Scalar (1 - decay_mom1_pow s)) = Inr rate_t" and
    num: "vmul rate_t (est_mom1_b s) = Inr num" and
    sq: "pow_half (est_mom2_b s) = Inr sq" and
    stp: "vdiv num (vmap (\<lambda>x. x + offset s) sq) = Inr stp"
    unfolding step_standard_def by (auto split: sum.splits)
  have r': "r = Scalar (sqrt (1 - decay_mom2_pow s))" and p2: "0 \<le> 1 - decay_mom2_pow s"
    using pow_half_Scalar[OF r] by blast+
  from vdiv_fits[OF stp assms(2)] have f_num: "fits num n" and f_sq: "fits sq n" by simp_all
  from vmul_fits[OF num f_num] have f_rate: "fits rate_t n" and f_m: "fits (est_mom1_b s) n" by simp_all
  from vdiv_fits[OF rate f_rate] have f_sr: "fits sr n" by simp
  from vmul_fits[OF sr f_sr] have f_step_rate: "fits (step_rate s) n" by simp
  from f_sq pow_half_fits[OF sq] have f_v: "fits (est_mom2_b s) n" by simp
  have e_sq: "elem sq i = sqrt (elem (est_mom2_b s) i)" and v0: "0 \<le> elem (est_mom2_b s) i"
    using pow_half_elem[OF sq f_v assms(3)] by simp_all
  have e_stp: "elem stp i = elem num i / (elem sq i + offset s)" and d0: "elem sq i + offset s \<noteq> 0"
    using vdiv_elem[OF stp assms(2,3)] f_sq assms(3) by (simp_all add: elem_vmap)
  have e_num: "elem num i = elem rate_t i * elem (est_mom1_b s) i"
    using vmul_elem[OF num f_num assms(3)] .
  have e_rate: "elem rate_t i = elem sr i / (1 - decay_mom1_pow s)" and p1: "1 - decay_mom1_pow s \<noteq> 0"
    using vdiv_elem[OF rate f_rate assms(3)] by simp_all
  have e_sr: "elem sr i = elem (step_rate s) i * sqrt (1 - decay_mom2_pow s)"
    using vmul_elem[OF sr f_sr assms(3)] r' by simp
  show "elem stp i =
           elem (step_rate s) i * sqrt (1 - decay_mom2_pow s) / (1 - decay_mom1_pow s)
             * elem (est_mom1_b s) i / (sqrt (elem (est_mom2_b s) i) + offset s)"
    by (simp add: e_stp e_num e_rate e_sr e_sq)
  show "0 \<le> 1 - decay_mom2_pow s" by (rule p2)
  show "1 - decay_mom1_pow s \<noteq> 0" by (rule p1)
  show "0 \<le> elem (est_mom2_b s) i" by (rule v0)
  show "sqrt (elem (est_mom2_b s) i) + offset s \<noteq> 0" using d0 e_sq by simp
  show "fits (step_rate s) n" by (rule f_step_rate)
  show "fits (est_mom1_b s) n" by (rule f_m)
  show "fits (est_mom2_b s) n" by (rule f_v)
qed

lemma step_nesterov_elem:
  assumes "step_nesterov s g = Inr stp" and "fits stp n" and "i < n"
  shows "elem stp i =
           elem (step_rate s) i
             * ((1 - decay_mom1 s) * elem (est_mom1_b s) i / (1 - (1 - decay_mom1 s) * decay_mom1_pow s)
                + decay_mom1 s * elem g i / (1 - decay_mom1_pow s))
             / (sqrt (elem (est_mom2_b s) i / (1 - decay_mom2_pow s)) + offset s)"
    and "1 - (1 - decay_mom1 s) * decay_mom1_pow s \<noteq> 0" and "1 - decay_mom1_pow s \<noteq> 0"
    and "1 - decay_mom2_pow s \<noteq> 0"
    and "0 \<le> elem (est_mom2_b s) i / (1 - decay_mom2_pow s)"
    and "sqrt (elem (est_mom2_b s) i / (1 - decay_mom2_pow s)) + offset s \<noteq> 0"
    and "fits (step_rate s) n" and "fits (est_mom1_b s) n" and "fits (est_mom2_b s) n" and "fits g n"
proof -
  from assms(1) obtain t1 t2 est_mom1 est_mom2 num sq where
    t1: "vdiv (vmap (\<lambda>x. (1 - decay_mom1 s) * x) (est_mom1_b s))
              (Scalar (1 - (1 - decay_mom1 s) * decay_mom1_pow s)) = Inr t1" and
    t2: "vdiv (vmap (\<lambda>x. decay_mom1 s * x) g) (Scalar (1 - decay_mom1_pow s)) = Inr t2" and
    m1: "vadd t1 t2 = Inr est_mom1" and
    m2: "vdiv (est_mom2_b s) (Scalar (1 - decay_mom2_pow s)) = Inr est_mom2" and
    num: "vmul (step_rate s) est_mom1 = Inr num" and
    sq: "pow_half est_mom2 = Inr sq" and
    stp: "vdiv num (vmap (\<lambda>x. x + offset s) sq) = Inr stp"
    unfolding step_nesterov_def Let_def by (auto split: sum.splits)
  from vdiv_fits[OF stp assms(2)] have f_num: "fits num n" and f_sq: "fits sq n" by simp_all
  from vmul_fits[OF num f_num] have f_sr: "fits (step_rate s) n" and f_m1: "fits est_mom1 n" by simp_all
  from vadd_fits[OF m1 f_m1] have f_t1: "fits t1 n" and f_t2: "fits t2 n" by simp_all
  from vdiv_fits[OF t1 f_t1] have f_m: "fits (est_mom1_b s) n" by simp
  from vdiv_fits[OF t2 f_t2] have f_g: "fits g n" by simp
  from f_sq pow_half_fits[OF sq] have f_m2: "fits est_mom2 n" by simp
  from vdiv_fits[OF m2 f_m2] have f_v: "fits (est_mom2_b s) n" by simp
  have e_sq: "elem sq i = sqrt (elem est_mom2 i)" and v0: "0 \<le> elem est_mom2 i"
    using pow_half_elem[OF sq f_m2 assms(3)] by simp_all
  have e_stp: "elem stp i = elem num i / (elem sq i + offset s)" and d0: "elem sq i + offset s \<noteq> 0"
    using vdiv_elem[OF stp assms(2,3)] f_sq assms(3) by (simp_all add: elem_vmap)
  have e_num: "elem num i = elem (step_rate s) i * elem est_mom1 i"
    using vmul_elem[OF num f_num assms(3)] .
  have e_m1: "elem est_mom1 i = elem t1 i + elem t2 i"
    using vadd_elem[OF m1 f_m1 assms(3)] .
  have e_t1: "elem t1 i = (1 - decay_mom1 s) * elem (est_mom1_b s) i / (1 - (1 - decay_mom1 s) * decay_mom1_pow s)"
    and q1: "1 - (1 - decay_mom1 s) * decay_mom1_pow s \<noteq> 0"
    using vdiv_elem[OF t1 f_t1 assms(3)] f_m assms(3) by (simp_all add: elem_vmap)
  have e_t2: "elem t2 i = decay_mom1 s * elem g i / (1 - decay_mom1_pow s)"
    and q2: "1 - decay_mom1_pow s \<noteq> 0"
    using vdiv_elem[OF t2 f_t2 assms(3)] f_g assms(3) by (simp_all add: elem_vmap)
  have e_m2: "elem est_mom2 i = elem (est_mom2_b s) i / (1 - decay_mom2_pow s)"
    and q3: "1 - decay_mom2_pow s \<noteq> 0"
    using vdiv_elem[OF m2 f_m2 assms(3)] by simp_all
  show "elem stp i =
           elem (step_rate s) i
             * ((1 - decay_mom1 s) * elem (est_mom1_b s) i / (1 - (1 - decay_mom1 s) * decay_mom1_pow s)
                + decay_mom1 s * elem g i / (1 - decay_mom1_pow s))
             / (sqrt (elem (est_mom2_b s) i / (1 - decay_mom2_pow s)) + offset s)"
    by (simp only: e_stp e_num e_m1 e_t1 e_t2 e_sq e_m2)
  show "1 - (1 - decay_mom1 s) * decay_mom1_pow s \<noteq> 0" by (rule q1)
  show "1 - decay_mom1_pow s \<noteq> 0" by (rule q2)
  show "1 - decay_mom2_pow s \<noteq> 0" by (rule q3)
  show "0 \<le> elem (est_mom2_b s) i / (1 - decay_mom2_pow s)" using v0 e_m2 by simp
  show "sqrt (elem (est_mom2_b s) i / (1 - decay_mom2_pow s)) + offset s \<noteq> 0"
    using d0 e_sq e_m2 by simp
  show "fits (step_rate s) n" by (rule f_sr)
  show "fits (est_mom1_b s) n" by (rule f_m)
  show "fits (est_mom2_b s) n" by (rule f_v)
  show "fits g n" by (rule f_g)
qed

lemma moments_elem:
  assumes m: "vadd (vmap (\<lambda>x. c * x) g) (vmap (\<lambda>x. (1 - c) * x) p) = Inr m"
    and f: "fits m n" and i: "i < n"
  shows "elem m i = c * elem g i + (1 - c) * elem p i"
proof -
  from vadd_fits[OF m f] have "fits g n" and "fits p n" by simp_all
  with vadd_elem[OF m f i] i show ?thesis by (simp add: elem_vmap)
qed

lemma moments2_elem:
  assumes m: "vadd (vmap (\<lambda>x. c * x) (vmap (\<lambda>x. x ^ 2) g)) (vmap (\<lambda>x. (1 - c) * x) p) = Inr m"
    and f: "fits m n" and i: "i < n"
  shows "elem m i = c * (elem g i) ^ 2 + (1 - c) * elem p i"
proof -
  from vadd_fits[OF m f] have "fits g n" and "fits p n" by simp_all
  with vadd_elem[OF m f i] i show ?thesis by (simp add: elem_vmap)
qed



section \<open>The update rule\<close>

text \<open>
  C1. In standard mode (\<open>momentum\<close> false), a completed iteration whose gradient is
  \<open>g\<close> (the value the gradient function returned for the parameters and the item of
  this iteration) advances both decay powers, sets at every position \<open>i\<close> of the
  parameter vector \<open>m = decay_mom1 * g + (1 - decay_mom1) * m_prev\<close> and
  \<open>v = decay_mom2 * g\<^sup>2 + (1 - decay_mom2) * v_prev\<close>, and takes the step
  \<open>step_rate * sqrt (1 - decay_mom2_pow) / (1 - decay_mom1_pow) * m / (sqrt v + offset)\<close>
  with the advanced powers. The step is stored in \<open>step\<close> and subtracted from the
  parameter vector, which keeps its length. No divisor is zero and no root is taken of a
  negative number.
\<close>

theorem standard_mode_iteration:
  assumes pull: "next_pull (h, s) = ((h', s'), Yielded r)"
    and mode: "\<not> momentum s"
    and i: "i < length (h (wrt s))"
  shows "fprime s (h (wrt s)) (info_args r) (info_kwargs r) = Inr (info_gradient r)
    \<and> decay_mom1_pow s' = decay_mom1_pow s * (1 - decay_mom1 s)
    \<and> decay_mom2_pow s' = decay_mom2_pow s * (1 - decay_mom2 s)
    \<and> elem (est_mom1_b s') i =
        decay_mom1 s * elem (info_gradient r) i + (1 - decay_mom1 s) * elem (est_mom1_b s) i
    \<and> elem (est_mom2_b s') i =
        decay_mom2 s * (elem (info_gradient r) i) ^ 2 + (1 - decay_mom2 s) * elem (est_mom2_b s) i
    \<and> 0 \<le> 1 - decay_mom2_pow s' \<and> 1 - decay_mom1_pow s' \<noteq> 0
    \<and> 0 \<le> elem (est_mom2_b s') i \<and> sqrt (elem (est_mom2_b s') i) + offset s \<noteq> 0
    \<and> elem (step s') i =
        elem (step_rate s) i * sqrt (1 - decay_mom2_pow s') / (1 - decay_mom1_pow s')
          * elem (est_mom1_b s') i / (sqrt (elem (est_mom2_b s') i) + offset s)
    \<and> length (h' (wrt s)) = length (h (wrt s))
    \<and> h' (wrt s) ! i = h (wrt s) ! i - elem (step s') i"
proof -
  from next_pull_Yielded[OF pull] mode obtain a k rest g m v stp w where
    g: "fprime s (h (wrt s)) a k = Inr g" and
    m: "vadd (vmap (\<lambda>x. decay_mom1 s * x) g) (vmap (\<lambda>x. (1 - decay_mom1 s) * x) (est_mom1_b s)) = Inr m" and
    v: "vadd (vmap (\<lambda>x. decay_mom2 s * x) (vmap (\<lambda>x. x ^ 2) g)) (vmap (\<lambda>x. (1 - decay_mom2 s) * x) (est_mom2_b s)) = Inr v" and
    stp: "step_standard (advanced s rest m v) = Inr stp" and
    w: "isub (h (wrt s)) stp = Inr w" and
    h': "h' = h(wrt s := w)" and
    s': "s' = (advanced s rest m v)\<lparr>step := stp, n_iter := n_iter s + 1\<rparr>" and
    r: "r = \<lparr> info_n_iter = n_iter s + 1, info_gradient = g, info_args = a, info_kwargs = k \<rparr>"
    by auto
  let ?n = "length (h (wrt s))"
  from isub_Inr[OF w] have len: "length w = ?n" and f_stp: "fits stp ?n" by simp_all
  note st = step_standard_elem[OF stp f_stp i]
  from st(7) have f_m: "fits m ?n" by (simp add: advanced_def)
  from st(8) have f_v: "fits v ?n" by (simp add: advanced_def)
  have e_m: "elem m i = decay_mom1 s * elem g i + (1 - decay_mom1 s) * elem (est_mom1_b s) i"
    by (rule moments_elem[OF m f_m i])
  have e_v: "elem v i = decay_mom2 s * (elem g i) ^ 2 + (1 - decay_mom2 s) * elem (est_mom2_b s) i"
    by (rule moments2_elem[OF v f_v i])
  have sel: "est_mom1_b s' = m" "est_mom2_b s' = v" "step s' = stp"
    "decay_mom1_pow s' = decay_mom1_pow s * (1 - decay_mom1 s)"
    "decay_mom2_pow s' = decay_mom2_pow s * (1 - decay_mom2 s)"
    by (simp_all add: s' advanced_def)
  have adv: "est_mom1_b (advanced s rest m v) = m" "est_mom2_b (advanced s rest m v) = v"
    "decay_mom1_pow (advanced s rest m v) = decay_mom1_pow s * (1 - decay_mom1 s)"
    "decay_mom2_pow (advanced s rest m v) = decay_mom2_pow s * (1 - decay_mom2 s)"
    "step_rate (advanced s rest m v) = step_rate s" "offset (advanced s rest m v) = offset s"
    by (simp_all add: advanced_def)
  have c1: "fprime s (h (wrt s)) (info_args r) (info_kwargs r) = Inr (info_gradient r)"
    using g by (simp add: r)
  have c_step: "elem (step s') i =
        elem (step_rate s) i * sqrt (1 - decay_mom2_pow s') / (1 - decay_mom1_pow s')
          * elem (est_mom1_b s') i / (sqrt (elem (est_mom2_b s') i) + offset s)"
    using st(1) by (simp only: sel adv)
  have c_wrt: "h' (wrt s) ! i = h (wrt s) ! i - elem (step s') i"
    using isub_elem[OF w i] by (simp add: h' sel)
  have c_len: "length (h' (wrt s)) = length (h (wrt s))"
    using len by (simp add: h')
  have c_m: "elem (est_mom1_b s') i =
        decay_mom1 s * elem (info_gradient r) i + (1 - decay_mom1 s) * elem (est_mom1_b s) i"
    using e_m by (simp add: sel r)
  have c_v: "elem (est_mom2_b s') i =
        decay_mom2 s * (elem (info_gradient r) i) ^ 2 + (1 - decay_mom2 s) * elem (est_mom2_b s) i"
    using e_v by (simp add: sel r)
  have c_side: "0 \<le> 1 - decay_mom2_pow s'" "1 - decay_mom1_pow s' \<noteq> 0"
    "0 \<le> elem (est_mom2_b s') i" "sqrt (elem (est_mom2_b s') i) + offset s \<noteq> 0"
    using st(2,3,4,5) by (simp_all add: sel adv)
  show ?thesis
    using c1 sel(4,5) c_m c_v c_side c_step c_len c_wrt by blast
qed

theorem standard_mode_iteration_witness:
  "next_pull (ex_store, ex_adam False [(2, False)]) =
     ((ex_store(0 := [1 / 2]),
       (ex_adam False [])\<lparr>n_iter := 1, est_mom1_b := Array [1], est_mom2_b := Array [1],
          decay_mom1_pow := 1 / 2, decay_mom2_pow := 3 / 4, step := Array [1 / 2]\<rparr>),
      Yielded \<lparr>info_n_iter = 1, info_gradient = Array [2], info_args = 2, info_kwargs = False\<rparr>)
   \<and> \<not> momentum (ex_adam False [(2, False)])
   \<and> (0::nat) < length (ex_store (wrt (ex_adam False [(2, False)])))
   \<and> elem (Array [1 / 2]) 0 = 1 * sqrt (1 - 3 / 4) / (1 - 1 / 2) * 1 / (sqrt 1 + 1)
   \<and> (ex_store(0 := [1 / 2])) 0 ! 0 = ex_store 0 ! 0 - 1 / 2"
proof -
  have pull: "next_pull (ex_store, ex_adam False [(2, False)]) =
     ((ex_store(0 := [1 / 2]),
       (ex_adam False [])\<lparr>n_iter := 1, est_mom1_b := Array [1], est_mom2_b := Array [1],
          decay_mom1_pow := 1 / 2, decay_mom2_pow := 3 / 4, step := Array [1 / 2]\<rparr>),
      Yielded \<lparr>info_n_iter = 1, info_gradient = Array [2], info_args = 2, info_kwargs = False\<rparr>)"
    by (simp add: ex_defs real_sqrt_divide)
  have mode: "\<not> momentum (ex_adam False [(2, False)])"
    by (simp add: ex_adam_def)
  have i: "(0::nat) < length (ex_store (wrt (ex_adam False [(2, False)])))"
    by (simp add: ex_adam_def ex_store_def)
  from standard_mode_iteration[OF pull mode i] pull mode i show ?thesis
    by (simp add: ex_adam_def ex_store_def)
qed

text \<open>
  C2. In Nesterov mode (\<open>momentum\<close> true), a completed iteration with gradient \<open>g\<close>
  updates the moments in the same way and takes, at every position of the parameter
  vector, the step \<open>step_rate * m_hat / (sqrt v_hat + offset)\<close> with
  \<open>m_hat = (1 - decay_mom1) * m / (1 - (1 - decay_mom1) * decay_mom1_pow)
    + decay_mom1 * g / (1 - decay_mom1_pow)\<close> and \<open>v_hat = v / (1 - decay_mom2_pow)\<close>.
  The step is stored in \<open>step\<close> and subtracted from the parameter vector.
\<close>

theorem nesterov_mode_iteration:
  assumes pull: "next_pull (h, s) = ((h', s'), Yielded r)"
    and mode: "momentum s"
    and i: "i < length (h (wrt s))"
  shows "fprime s (h (wrt s)) (info_args r) (info_kwargs r) = Inr (info_gradient r)
    \<and> decay_mom1_pow s' = decay_mom1_pow s * (1 - decay_mom1 s)
    \<and> decay_mom2_pow s' = decay_mom2_pow s * (1 - decay_mom2 s)
    \<and> elem (est_mom1_b s') i =
        decay_mom1 s * elem (info_gradient r) i + (1 - decay_mom1 s) * elem (est_mom1_b s) i
    \<and> elem (est_mom2_b s') i =
        decay_mom2 s * (elem (info_gradient r) i) ^ 2 + (1 - decay_mom2 s) * elem (est_mom2_b s) i
    \<and> 1 - (1 - decay_mom1 s) * decay_mom1_pow s' \<noteq> 0 \<and> 1 - decay_mom1_pow s' \<noteq> 0
    \<and> 1 - decay_mom2_pow s' \<noteq> 0
    \<and> 0 \<le> elem (est_mom2_b s') i / (1 - decay_mom2_pow s')
    \<and> sqrt (elem (est_mom2_b s') i / (1 - decay_mom2_pow s')) + offset s \<noteq> 0
    \<and> elem (step s') i =
        elem (step_rate s) i
          * ((1 - decay_mom1 s) * elem (est_mom1_b s') i
               / (1 - (1 - decay_mom1 s) * decay_mom1_pow s')
             + decay_mom1 s * elem (info_gradient r) i / (1 - decay_mom1_pow s'))
          / (sqrt (elem (est_mom2_b s') i / (1 - decay_mom2_pow s')) + offset s)
    \<and> length (h' (wrt s)) = length (h (wrt s))
    \<and> h' (wrt s) ! i = h (wrt s) ! i - elem (step s') i"
proof -
  from next_pull_Yielded[OF pull] mode obtain a k rest g m v stp w where
    g: "fprime s (h (wrt s)) a k = Inr g" and
    m: "vadd (vmap (\<lambda>x. decay_mom1 s * x) g) (vmap (\<lambda>x. (1 - decay_mom1 s) * x) (est_mom1_b s)) = Inr m" and
    v: "vadd (vmap (\<lambda>x. decay_mom2 s * x) (vmap (\<lambda>x. x ^ 2) g)) (vmap (\<lambda>x. (1 - decay_mom2 s) * x) (est_mom2_b s)) = Inr v" and
    stp: "step_nesterov (advanced s rest m v) g = Inr stp" and
    w: "isub (h (wrt s)) stp = Inr w" and
    h': "h' = h(wrt s := w)" and
    s': "s' = (advanced s rest m v)\<lparr>step := stp, n_iter := n_iter s + 1\<rparr>" and
    r: "r = \<lparr> info_n_iter = n_iter s + 1, info_gradient = g, info_args = a, info_kwargs = k \<rparr>"
    by auto
  let ?n = "length (h (wrt s))"
  from isub_Inr[OF w] have len: "length w = ?n" and f_stp: "fits stp ?n" by simp_all
  note st = step_nesterov_elem[OF stp f_stp i]
  from st(8) have f_m: "fits m ?n" by (simp add: advanced_def)
  from st(9) have f_v: "fits v ?n" by (simp add: advanced_def)
  have e_m: "elem m i = decay_mom1 s * elem g i + (1 - decay_mom1 s) * elem (est_mom1_b s) i"
    by (rule moments_elem[OF m f_m i])
  have e_v: "elem v i = decay_mom2 s * (elem g i) ^ 2 + (1 - decay_mom2 s) * elem (est_mom2_b s) i"
    by (rule moments2_elem[OF v f_v i])
  have sel: "est_mom1_b s' = m" "est_mom2_b s' = v" "step s' = stp"
    "decay_mom1_pow s' = decay_mom1_pow s * (1 - decay_mom1 s)"
    "decay_mom2_pow s' = decay_mom2_pow s * (1 - decay_mom2 s)"
    by (simp_all add: s' advanced_def)
  have adv: "est_mom1_b (advanced s rest m v) = m" "est_mom2_b (advanced s rest m v) = v"
    "decay_mom1_pow (advanced s rest m v) = decay_mom1_pow s * (1 - decay_mom1 s)"
    "decay_mom2_pow (advanced s rest m v) = decay_mom2_pow s * (1 - decay_mom2 s)"
    "step_rate (advanced s rest m v) = step_rate s" "offset (advanced s rest m v) = offset s"
    "decay_mom1 (advanced s rest m v) = decay_mom1 s"
    by (simp_all add: advanced_def)
  have gr: "info_gradient r = g" by (simp add: r)
  have c1: "fprime s (h (wrt s)) (info_args r) (info_kwargs r) = Inr (info_gradient r)"
    using g by (simp add: r)
  have c_step: "elem (step s') i =
        elem (step_rate s) i
          * ((1 - decay_mom1 s) * elem (est_mom1_b s') i
               / (1 - (1 - decay_mom1 s) * decay_mom1_pow s')
             + decay_mom1 s * elem (info_gradient r) i / (1 - decay_mom1_pow s'))
          / (sqrt (elem (est_mom2_b s') i / (1 - decay_mom2_pow s')) + offset s)"
    using st(1) by (simp only: sel adv gr)
  have c_wrt: "h' (wrt s) ! i = h (wrt s) ! i - elem (step s') i"
    using isub_elem[OF w i] by (simp add: h' sel)
  have c_len: "length (h' (wrt s)) = length (h (wrt s))"
    using len by (simp add: h')
  have c_m: "elem (est_mom1_b s') i =
        decay_mom1 s * elem (info_gradient r) i + (1 - decay_mom1 s) * elem (est_mom1_b s) i"
    using e_m by (simp add: sel r)
  have c_v: "elem (est_mom2_b s') i =
        decay_mom2 s * (elem (info_gradient r) i) ^ 2 + (1 - decay_mom2 s) * elem (est_mom2_b s) i"
    using e_v by (simp add: sel r)
  have c_side: "1 - (1 - decay_mom1 s) * decay_mom1_pow s' \<noteq> 0" "1 - decay_mom1_pow s' \<noteq> 0"
    "1 - decay_mom2_pow s' \<noteq> 0"
    "0 \<le> elem (est_mom2_b s') i / (1 - decay_mom2_pow s')"
    "sqrt (elem (est_mom2_b s') i / (1 - decay_mom2_pow s')) + offset s \<noteq> 0"
    using st(2,3,4,5,6) by (simp_all add: sel adv)
  show ?thesis
    using c1 sel(4,5) c_m c_v c_side c_step c_len c_wrt by blast
qed

theorem nesterov_mode_iteration_witness:
  "next_pull (ex_store, ex_adam True [(2, False)]) =
     ((ex_store(0 := [1 / 9]),
       (ex_adam True [])\<lparr>n_iter := 1, est_mom1_b := Array [1], est_mom2_b := Array [1],
          decay_mom1_pow := 1 / 2, decay_mom2_pow := 3 / 4, step := Array [8 / 9]\<rparr>),
      Yielded \<lparr>info_n_iter = 1, info_gradient = Array [2], info_args = 2, info_kwargs = False\<rparr>)
   \<and> momentum (ex_adam True [(2, False)])
   \<and> (0::nat) < length (ex_store (wrt (ex_adam True [(2, False)])))
   \<and> elem (Array [8 / 9]) 0 =
       1 * ((1 - 1 / 2) * 1 / (1 - (1 - 1 / 2) * (1 / 2)) + 1 / 2 * 2 / (1 - 1 / 2))
         / (sqrt (1 / (1 - 3 / 4)) + 1)
   \<and> (ex_store(0 := [1 / 9])) 0 ! 0 = ex_store 0 ! 0 - 8 / 9"
proof -
  have pull: "next_pull (ex_store, ex_adam True [(2, False)]) =
     ((ex_store(0 := [1 / 9]),
       (ex_adam True [])\<lparr>n_iter := 1, est_mom1_b := Array [1], est_mom2_b := Array [1],
          decay_mom1_pow := 1 / 2, decay_mom2_pow := 3 / 4, step := Array [8 / 9]\<rparr>),
      Yielded \<lparr>info_n_iter = 1, info_gradient = Array [2], info_args = 2, info_kwargs = False\<rparr>)"
    by (simp add: ex_defs real_sqrt_divide)
  have mode: "momentum (ex_adam True [(2, False)])"
    by (simp add: ex_adam_def)
  have i: "(0::nat) < length (ex_store (wrt (ex_adam True [(2, False)])))"
    by (simp add: ex_adam_def ex_store_def)
  from nesterov_mode_iteration[OF pull mode i] pull mode i show ?thesis
    by (simp add: ex_adam_def ex_store_def)
qed





section \<open>A failing gradient function\<close>

text \<open>
  C4, as amended. When the gradient function raises during a pull, the exception reaches
  the caller unmodified, and the parameter vector, \<open>n_iter\<close>, \<open>est_mom1_b\<close>,
  \<open>est_mom2_b\<close> and \<open>step\<close> are as before the pull; the two decay powers have
  already been multiplied by \<open>1 - decay_mom1\<close> and \<open>1 - decay_mom2\<close>, and the item
  has been taken from the argument iterator.
\<close>

theorem gradient_failure_state:
  assumes "args s = (a, k) # rest" and "fprime s (h (wrt s)) a k = Inl e"
  shows "next_pull (h, s) =
           ((h, s\<lparr>args := rest,
                  decay_mom1_pow := decay_mom1_pow s * (1 - decay_mom1 s),
                  decay_mom2_pow := decay_mom2_pow s * (1 - decay_mom2 s)\<rparr>),
            Raised e)"
  using assms by (simp add: next_pull_def Let_def)

theorem gradient_failure_state_witness:
  "args (ex_adam False [(2, True)]) = (2, True) # []
   \<and> fprime (ex_adam False [(2, True)]) (ex_store (wrt (ex_adam False [(2, True)]))) 2 True
       = Inl (External ''gradient failed'')
   \<and> next_pull (ex_store, ex_adam False [(2, True)]) =
       ((ex_store, (ex_adam False [])\<lparr>decay_mom1_pow := 1 / 2, decay_mom2_pow := 3 / 4\<rparr>),
        Raised (External ''gradient failed''))"
proof -
  have a: "args (ex_adam False [(2, True)]) = (2, True) # []"
    by (simp add: ex_adam_def)
  have f: "fprime (ex_adam False [(2, True)]) (ex_store (wrt (ex_adam False [(2, True)]))) 2 True
       = Inl (External ''gradient failed'')"
    by (simp add: ex_adam_def ex_fprime_def)
  from gradient_failure_state[where h = ex_store, OF a f] a f show ?thesis
    by (simp add: ex_adam_def)
qed

text \<open>
  C4 as stated fails: in this pull the gradient function raises, and the decay powers,
  1 before the pull, are 1/2 and 3/4 after it.
\<close>

theorem gradient_failure_counterexample:
  "fprime (ex_adam False [(2, True)]) (ex_store (wrt (ex_adam False [(2, True)]))) 2 True
       = Inl (External ''gradient failed'')
   \<and> decay_mom1_pow (ex_adam False [(2, True)]) = 1
   \<and> decay_mom2_pow (ex_adam False [(2, True)]) = 1
   \<and> decay_mom1_pow (snd (fst (next_pull (ex_store, ex_adam False [(2, True)])))) = 1 / 2
   \<and> decay_mom2_pow (snd (fst (next_pull (ex_store, ex_adam False [(2, True)])))) = 3 / 4"
  by (simp add: ex_defs)


section \<open>What iteration leaves alone\<close>

lemma next_pull_frame:
  assumes "next_pull (h, s) = ((h', s'), out)"
  shows "fprime s' = fprime s \<and> step_rate s' = step_rate s
    \<and> decay_mom1 s' = decay_mom1 s \<and> decay_mom2 s' = decay_mom2 s
    \<and> offset s' = offset s \<and> momentum s' = momentum s \<and> wrt s' = wrt s
    \<and> (\<forall>a. a \<noteq> wrt s \<longrightarrow> h' a = h a)"
  using assms unfolding next_pull_def Let_def
  by (auto split: list.splits sum.splits prod.splits cong: if_cong)

lemma iterate_Suc_cases:
  assumes "iterate (Suc n) st = (st'', out)"
  obtains (yielded) st' r where "next_pull st = (st', Yielded r)" and "iterate n st' = (st'', out)"
  | (raised) e where "next_pull st = (st'', Raised e)" and "out = Some (Some e)"
  | (stopped) "next_pull st = (st'', StopIteration)" and "out = Some None"
  using assms by (auto split: prod.splits pull.splits)

lemma iterate_frame:
  assumes "iterate n (h, s) = ((h', s'), out)"
  shows "fprime s' = fprime s \<and> step_rate s' = step_rate s
    \<and> decay_mom1 s' = decay_mom1 s \<and> decay_mom2 s' = decay_mom2 s
    \<and> offset s' = offset s \<and> momentum s' = momentum s \<and> wrt s' = wrt s
    \<and> (\<forall>a. a \<noteq> wrt s \<longrightarrow> h' a = h a)"
  using assms
proof (induction n arbitrary: h s)
  case 0
  then show ?case by simp
next
  case (Suc n)
  from Suc.prems show ?case
  proof (cases rule: iterate_Suc_cases)
    case (yielded st' r)
    obtain h1 s1 where st': "st' = (h1, s1)" by (cases st')
    from next_pull_frame[OF yielded(1)[unfolded st']] Suc.IH[OF yielded(2)[unfolded st']]
    show ?thesis by simp
  next
    case (raised e)
    from next_pull_frame[OF raised(1)] show ?thesis .
  next
    case stopped
    from next_pull_frame[OF stopped(1)] show ?thesis .
  qed
qed


text \<open>
  C10. Pulling on the generator, any number of times and whatever the outcome, changes
  neither the hyperparameters \<open>step_rate\<close>, \<open>decay_mom1\<close>, \<open>decay_mom2\<close>,
  \<open>offset\<close> and \<open>momentum\<close>, nor the reference to the gradient function, nor the
  reference to the parameter vector; in the store, only the array the object refers to
  is written. (The remaining attributes are \<open>est_mom1_b\<close>, \<open>est_mom2_b\<close>, the two
  decay powers, \<open>step\<close> and \<open>n_iter\<close>; the position of the argument iterator
  belongs to the iterator.)
\<close>

theorem iteration_frame:
  assumes "iterate n (h, s) = ((h', s'), out)"
  shows "fprime s' = fprime s \<and> step_rate s' = step_rate s
    \<and> decay_mom1 s' = decay_mom1 s \<and> decay_mom2 s' = decay_mom2 s
    \<and> offset s' = offset s \<and> momentum s' = momentum s \<and> wrt s' = wrt s
    \<and> (\<forall>a. a \<noteq> wrt s \<longrightarrow> h' a = h a)"
  using assms by (rule iterate_frame)

theorem iteration_frame_witness:
  "iterate 1 (ex_store(1 := [7]), ex_adam False [(2, False)]) =
     (((ex_store(1 := [7]))(0 := [1 / 2]),
       (ex_adam False [])\<lparr>n_iter := 1, est_mom1_b := Array [1], est_mom2_b := Array [1],
          decay_mom1_pow := 1 / 2, decay_mom2_pow := 3 / 4, step := Array [1 / 2]\<rparr>), None)
   \<and> (1::nat) \<noteq> wrt (ex_adam False [(2, False)])
   \<and> ((ex_store(1 := [7]))(0 := [1 / 2])) 1 = (ex_store(1 := [7])) 1
   \<and> step_rate ((ex_adam False [])\<lparr>n_iter := 1, est_mom1_b := Array [1], est_mom2_b := Array [1],
          decay_mom1_pow := 1 / 2, decay_mom2_pow := 3 / 4, step := Array [1 / 2]\<rparr>)
       = step_rate (ex_adam False [(2, False)])"
proof -
  have run: "iterate 1 (ex_store(1 := [7]), ex_adam False [(2, False)]) =
     (((ex_store(1 := [7]))(0 := [1 / 2]),
       (ex_adam False [])\<lparr>n_iter := 1, est_mom1_b := Array [1], est_mom2_b := Array [1],
          decay_mom1_pow := 1 / 2, decay_mom2_pow := 3 / 4, step := Array [1 / 2]\<rparr>), None)"
    by (simp add: ex_defs real_sqrt_divide)
  have neq: "(1::nat) \<noteq> wrt (ex_adam False [(2, False)])"
    by (simp add: ex_adam_def)
  from iteration_frame[OF run] neq run show ?thesis
    by blast
qed


section \<open>The decay powers\<close>

lemma next_pull_powers:
  assumes "powers_ok s" and pull: "next_pull (h, s) = ((h', s'), Yielded r)"
  shows "powers_ok s' \<and> n_iter s' = Suc (n_iter s)
    \<and> decay_mom1 s' = decay_mom1 s \<and> decay_mom2 s' = decay_mom2 s"
proof -
  from next_pull_Yielded[OF pull] obtain rest m v stp where
    s': "s' = (advanced s rest m v)\<lparr>step := stp, n_iter := n_iter s + 1\<rparr>"
    by blast
  with assms(1) show ?thesis
    by (simp add: powers_ok_def advanced_def)
qed

lemma iterate_powers:
  assumes "powers_ok s" and "iterate n (h, s) = ((h', s'), None)"
  shows "powers_ok s' \<and> n_iter s' = n_iter s + n
    \<and> decay_mom1 s' = decay_mom1 s \<and> decay_mom2 s' = decay_mom2 s"
  using assms
proof (induction n arbitrary: h s)
  case 0
  then show ?case by simp
next
  case (Suc n)
  from Suc.prems(2) show ?case
  proof (cases rule: iterate_Suc_cases)
    case (yielded st' r)
    obtain h1 s1 where st': "st' = (h1, s1)" by (cases st')
    note p = next_pull_powers[OF Suc.prems(1) yielded(1)[unfolded st']]
    from p have ok: "powers_ok s1" by simp
    from Suc.IH[OF ok yielded(2)[unfolded st']] p show ?thesis by simp
  qed simp_all
qed

lemma Adam_init_Inr:
  assumes "Adam_init a0 f sr d dm1 dm2 mo off items = Inr (ws, s)"
  shows "s = \<lparr> wrt = a0, args = items, n_iter = 0, fprime = f, step_rate = sr,
               decay_mom1 = dm1, decay_mom2 = dm2, offset = off, momentum = mo,
               est_mom1_b = Scalar 0, est_mom2_b = Scalar 0,
               decay_mom1_pow = 1, decay_mom2_pow = 1, step = Scalar 0 \<rparr>"
    and "0 < dm1" and "dm1 \<le> 1" and "0 < dm2" and "dm2 < 1"
  using assms unfolding Adam_init_def Let_def vdiv_def
  by (auto split: if_splits sum.splits val.splits)

text \<open>
  C5, as amended. At construction \<open>n_iter\<close> is 0, and after \<open>n\<close> completed
  iterations of a generator started on the constructed object, none of whose earlier
  pulls raised, \<open>n_iter = n\<close>, \<open>decay_mom1_pow = (1 - decay_mom1) ^ n_iter\<close> and
  \<open>decay_mom2_pow = (1 - decay_mom2) ^ n_iter\<close>, for every gradient function, every
  argument sequence and all hyperparameters the constructor accepts.
\<close>

theorem decay_powers_invariant:
  assumes init: "Adam_init a0 f sr d dm1 dm2 mo off items = Inr (ws, s0)"
    and run: "iterate n (h, s0) = ((h', s'), None)"
  shows "n_iter s0 = 0 \<and> n_iter s' = n
    \<and> decay_mom1_pow s' = (1 - decay_mom1 s') ^ n_iter s'
    \<and> decay_mom2_pow s' = (1 - decay_mom2 s') ^ n_iter s'
    \<and> decay_mom1 s' = dm1 \<and> decay_mom2 s' = dm2"
proof -
  note s0 = Adam_init_Inr(1)[OF init]
  have ok: "powers_ok s0" by (simp add: s0 powers_ok_def)
  from iterate_powers[OF ok run] show ?thesis
    by (simp add: powers_ok_def s0)
qed

theorem decay_powers_invariant_witness:
  "Adam_init 0 ex_fprime (Scalar 1) (None :: unit option) (1 / 2) (1 / 4) False 1
      [(2, False), (- 2, False)]
     = Inr ([], ex_adam False [(2, False), (- 2, False)])
   \<and> iterate 2 (ex_store, ex_adam False [(2, False), (- 2, False)]) =
       ((ex_store(0 := [1 / 2]),
         (ex_adam False [])\<lparr>n_iter := 2, est_mom1_b := Array [0], est_mom2_b := Array [1],
            decay_mom1_pow := 1 / 4, decay_mom2_pow := 9 / 16, step := Array [0]\<rparr>), None)
   \<and> (1 / 4 :: real) = (1 - 1 / 2) ^ 2 \<and> (9 / 16 :: real) = (1 - 1 / 4) ^ 2"
proof -
  have init: "Adam_init 0 ex_fprime (Scalar 1) (None :: unit option) (1 / 2) (1 / 4) False 1
      [(2, False), (- 2, False)]
     = Inr ([], ex_adam False [(2, False), (- 2, False)])"
    by (simp add: Adam_init_def vdiv_def ex_adam_def)
  have run: "iterate 2 (ex_store, ex_adam False [(2, False), (- 2, False)]) =
       ((ex_store(0 := [1 / 2]),
         (ex_adam False [])\<lparr>n_iter := 2, est_mom1_b := Array [0], est_mom2_b := Array [1],
            decay_mom1_pow := 1 / 4, decay_mom2_pow := 9 / 16, step := Array [0]\<rparr>), None)"
    by (simp add: ex_defs real_sqrt_divide numeral_2_eq_2)
  from decay_powers_invariant[OF init run] init run show ?thesis
    by (simp add: ex_adam_def)
qed

text \<open>
  C5 as stated fails after a pull that raised. The first pull on a constructed object
  fails in the gradient function, which leaves the decay powers advanced and the counter
  at 0; the object is iterated again and the next pull completes, with \<open>n_iter = 1\<close>
  and \<open>decay_mom1_pow = 1/4\<close>, the square of \<open>1 - decay_mom1\<close>.
\<close>

theorem decay_powers_counterexample:
  "Adam_init 0 ex_fprime (Scalar 1) (None :: unit option) (1 / 2) (1 / 4) False 1
      [(2, True), (2, False)]
     = Inr ([], ex_adam False [(2, True), (2, False)])
   \<and> next_pull (ex_store, ex_adam False [(2, True), (2, False)]) =
       ((ex_store,
         (ex_adam False [(2, False)])\<lparr>decay_mom1_pow := 1 / 2, decay_mom2_pow := 3 / 4\<rparr>),
        Raised (External ''gradient failed''))
   \<and> snd (next_pull (ex_store,
         (ex_adam False [(2, False)])\<lparr>decay_mom1_pow := 1 / 2, decay_mom2_pow := 3 / 4\<rparr>)) =
       Yielded \<lparr>info_n_iter = 1, info_gradient = Array [2], info_args = 2, info_kwargs = False\<rparr>
   \<and> n_iter (snd (fst (next_pull (ex_store,
         (ex_adam False [(2, False)])\<lparr>decay_mom1_pow := 1 / 2, decay_mom2_pow := 3 / 4\<rparr>)))) = 1
   \<and> decay_mom1 (snd (fst (next_pull (ex_store,
         (ex_adam False [(2, False)])\<lparr>decay_mom1_pow := 1 / 2, decay_mom2_pow := 3 / 4\<rparr>)))) = 1 / 2
   \<and> decay_mom1_pow (snd (fst (next_pull (ex_store,
         (ex_adam False [(2, False)])\<lparr>decay_mom1_pow := 1 / 2, decay_mom2_pow := 3 / 4\<rparr>)))) = 1 / 4
   \<and> (1 / 4 :: real) \<noteq> (1 - 1 / 2) ^ (1::nat)"
proof -
  have init: "Adam_init 0 ex_fprime (Scalar 1) (None :: unit option) (1 / 2) (1 / 4) False 1
      [(2, True), (2, False)]
     = Inr ([], ex_adam False [(2, True), (2, False)])"
    by (simp add: Adam_init_def vdiv_def ex_adam_def)
  have failed: "next_pull (ex_store, ex_adam False [(2, True), (2, False)]) =
       ((ex_store,
         (ex_adam False [(2, False)])\<lparr>decay_mom1_pow := 1 / 2, decay_mom2_pow := 3 / 4\<rparr>),
        Raised (External ''gradient failed''))"
    by (simp add: ex_defs)
  have completed: "next_pull (ex_store,
         (ex_adam False [(2, False)])\<lparr>decay_mom1_pow := 1 / 2, decay_mom2_pow := 3 / 4\<rparr>) =
       ((ex_store(0 := [1 - sqrt 7 / 6]),
         (ex_adam False [])\<lparr>n_iter := 1, est_mom1_b := Array [1], est_mom2_b := Array [1],
            decay_mom1_pow := 1 / 4, decay_mom2_pow := 9 / 16, step := Array [sqrt 7 / 6]\<rparr>),
        Yielded \<lparr>info_n_iter = 1, info_gradient = Array [2], info_args = 2, info_kwargs = False\<rparr>)"
    by (simp add: ex_defs real_sqrt_divide)
  show ?thesis
    unfolding completed using init failed by (simp add: ex_adam_def)
qed


section \<open>The checks of the constructor\<close>

lemma msgs_distinct: "stability_msg \<noteq> decay_msg"
  by (simp add: stability_msg_def decay_msg_def)
lemma Adam_init_rejects:
  assumes "dm1 \<le> 0 \<or> 1 < dm1 \<or> dm2 \<le> 0 \<or> 1 < dm2"
  shows "Adam_init a0 f sr d dm1 dm2 mo off items = Inl (ValueError decay_mom1_msg)
    \<or> Adam_init a0 f sr d dm1 dm2 mo off items = Inl (ValueError decay_mom2_msg)"
  using assms by (auto simp: Adam_init_def)

lemma Adam_init_accepts:
  assumes "0 < dm1" and "dm1 \<le> 1" and "0 < dm2" and "dm2 < 1"
  shows "\<exists>ws s. Adam_init a0 f sr d dm1 dm2 mo off items = Inr (ws, s)"
  using assms by (simp add: Adam_init_def vdiv_def Let_def)

text \<open>
  C6, as amended. The condition checked at construction is
  \<open>(1 - 2 * decay_mom1) / sqrt (1 - decay_mom2) < 1\<close>. For decay coefficients in
  \<open>(0, 1]\<close> with \<open>decay_mom2 < 1\<close> construction succeeds, and the stability warning
  is emitted exactly when that condition is violated.
\<close>

theorem stability_advisory:
  assumes "0 < dm1" and "dm1 \<le> 1" and "0 < dm2" and "dm2 < 1"
  shows "\<exists>ws s. Adam_init a0 f sr d dm1 dm2 mo off items = Inr (ws, s)
    \<and> (UserWarning stability_msg \<in> set ws \<longleftrightarrow> \<not> (1 - dm1 * 2) / sqrt (1 - dm2) < 1)"
  using assms msgs_distinct
  by (simp add: Adam_init_def vdiv_def Let_def)

theorem stability_advisory_witness:
  "(0::real) < 1 / 5 \<and> (1 / 5 :: real) \<le> 1 \<and> (0::real) < 16 / 25 \<and> (16 / 25 :: real) < 1
   \<and> \<not> (1 - 1 / 5 * 2) / sqrt (1 - 16 / 25) < 1
   \<and> (\<exists>ws s. Adam_init 0 ex_fprime (Scalar 1) (None :: unit option) (1 / 5) (16 / 25) False 1 []
                = Inr (ws, s)
         \<and> UserWarning stability_msg \<in> set ws)"
proof -
  have h: "(0::real) < 1 / 5" "(1 / 5 :: real) \<le> 1" "(0::real) < 16 / 25" "(16 / 25 :: real) < 1"
    by simp_all
  have c: "\<not> (1 - 1 / 5 * 2) / sqrt (1 - 16 / 25) < (1::real)"
  proof -
    have "sqrt (9 / 25) = 3 / 5"
      by (rule real_sqrt_unique) (simp_all add: power2_eq_square)
    then show ?thesis by simp
  qed
  from stability_advisory[OF h, of 0 ex_fprime "Scalar 1" "None :: unit option" False 1 "[]"] h c
  show ?thesis by auto
qed

text \<open>
  C6 as stated fails: the default coefficients (0.1 and 0.001) violate the condition as
  the specification words it, with \<open>sqrt decay_mom2\<close>, and construction emits no
  warning.
\<close>

theorem stability_advisory_counterexample:
  "\<not> spec_stability_condition (1 / 10) (1 / 1000)
   \<and> Adam_init 0 ex_fprime (Scalar (1 / 5000)) (None :: unit option) (1 / 10) (1 / 1000) False
       (1 / 100000000) [] =
     Inr ([], \<lparr> wrt = 0, args = [], n_iter = 0, fprime = ex_fprime,
                step_rate = Scalar (1 / 5000), decay_mom1 = 1 / 10, decay_mom2 = 1 / 1000,
                offset = 1 / 100000000, momentum = False,
                est_mom1_b = Scalar 0, est_mom2_b = Scalar 0,
                decay_mom1_pow = 1, decay_mom2_pow = 1, step = Scalar 0 \<rparr>)"
proof -
  have a: "sqrt (1 / 1000) \<le> (4 / 5 :: real)"
    by (rule real_le_lsqrt) (simp_all add: power2_eq_square)
  have b: "(4 / 5 :: real) < sqrt (999 / 1000)"
    by (rule real_less_rsqrt) (simp add: power2_eq_square)
  have p: "(0::real) < sqrt (1 / 1000)" by simp
  have "\<not> (4 / 5) / sqrt (1 / 1000) < (1::real)"
    using a p by (simp add: field_simps)
  then have spec: "\<not> spec_stability_condition (1 / 10) (1 / 1000)"
    by (simp add: spec_stability_condition_def)
  have q: "(4 / 5) / sqrt (999 / 1000) < (1::real)"
    using b by (simp add: field_simps)
  have z: "sqrt (999 / 1000) \<noteq> (0::real)" by simp
  show ?thesis
    using spec q z by (simp add: Adam_init_def vdiv_def Let_def)
qed

text \<open>
  C7. The coefficient \<open>decay_mom2 = 1\<close> lies in \<open>(0, 1]\<close> and passes both range
  checks, but construction raises \<open>ZeroDivisionError\<close> in the stability check, which
  divides by \<open>(1 - decay_mom2) ** 0.5\<close>.
\<close>

theorem decay_mom2_one_raises:
  "Adam_init 0 ex_fprime (Scalar (1 / 5000)) (None :: unit option) (1 / 10) 1 False
     (1 / 100000000) [] = Inl ZeroDivisionError"
  by (simp add: Adam_init_def vdiv_def)


section \<open>Stopping and resuming\<close>

lemma restore_extract:
  assumes "Adam_init a2 (fprime sK) sr d dm1 dm2 (momentum sK) off (args sK) = Inr (ws, fresh)"
  shows "restoreState (extractState sK) fresh = sK\<lparr>wrt := a2\<rparr>"
  using Adam_init_Inr(1)[OF assms]
  by (cases sK) (simp add: restoreState_def extractState_def)

lemma step_standard_wrt:
  "step_standard (s\<lparr>wrt := a, args := r, decay_mom1_pow := p1, decay_mom2_pow := p2,
                    est_mom1_b := m, est_mom2_b := v\<rparr>)
   = step_standard (s\<lparr>args := r, decay_mom1_pow := p1, decay_mom2_pow := p2,
                      est_mom1_b := m, est_mom2_b := v\<rparr>)"
  by (simp add: step_standard_def cong: sum.case_cong)

lemma step_nesterov_wrt:
  "step_nesterov (s\<lparr>wrt := a, args := r, decay_mom1_pow := p1, decay_mom2_pow := p2,
                    est_mom1_b := m, est_mom2_b := v\<rparr>) g
   = step_nesterov (s\<lparr>args := r, decay_mom1_pow := p1, decay_mom2_pow := p2,
                      est_mom1_b := m, est_mom2_b := v\<rparr>) g"
  by (simp add: step_nesterov_def Let_def cong: sum.case_cong)

lemma next_pull_relocate:
  assumes "h (wrt s) = h2 a2"
  shows "next_pull (h2, s\<lparr>wrt := a2\<rparr>) =
           (case next_pull (h, s) of
              ((h', s'), out) \<Rightarrow> ((h2(a2 := h' (wrt s)), s'\<lparr>wrt := a2\<rparr>), out))"
  unfolding next_pull_def Let_def
  by (simp add: assms step_standard_wrt step_nesterov_wrt
        split: list.split sum.split prod.split cong: if_cong)


lemma iterate_relocate:
  assumes "h (wrt s) = h2 a2" and "iterate n (h, s) = ((h', s'), out)"
  shows "\<exists>h2'. iterate n (h2, s\<lparr>wrt := a2\<rparr>) = ((h2', s'\<lparr>wrt := a2\<rparr>), out)
           \<and> h2' a2 = h' (wrt s)"
  using assms
proof (induction n arbitrary: h s h2)
  case 0
  then show ?case by simp
next
  case (Suc n)
  obtain h1 s1 o1 where np: "next_pull (h, s) = ((h1, s1), o1)"
    by (metis prod.exhaust)
  let ?g = "h2(a2 := h1 (wrt s))"
  have reloc: "next_pull (h2, s\<lparr>wrt := a2\<rparr>) = ((?g, s1\<lparr>wrt := a2\<rparr>), o1)"
    using next_pull_relocate[where h = h and s = s and ?h2.0 = h2 and ?a2.0 = a2, OF Suc.prems(1)]
    by (simp add: np)
  from next_pull_frame[OF np] have w: "wrt s1 = wrt s" by simp
  show ?case
  proof (cases o1)
    case (Yielded r)
    with Suc.prems(2) np have it: "iterate n (h1, s1) = ((h', s'), out)" by simp
    have pre: "h1 (wrt s1) = ?g a2" by (simp add: w)
    from Suc.IH[where h = h1 and s = s1 and ?h2.0 = ?g, OF pre it]
    obtain h2' where "iterate n (?g, s1\<lparr>wrt := a2\<rparr>) = ((h2', s'\<lparr>wrt := a2\<rparr>), out)"
      and "h2' a2 = h' (wrt s1)" by blast
    then show ?thesis
      by (simp add: reloc Yielded w)
  next
    case (Raised e)
    with Suc.prems(2) np reloc show ?thesis by auto
  next
    case StopIteration
    with Suc.prems(2) np reloc show ?thesis by auto
  qed
qed

lemma iterate_add:
  assumes "iterate K st = (stK, None)"
  shows "iterate (K + M) st = iterate M stK"
  using assms
proof (induction K arbitrary: st)
  case 0
  then show ?case by simp
next
  case (Suc K)
  from Suc.prems show ?case
    by (cases rule: iterate_Suc_cases) (simp_all add: Suc.IH)
qed

lemma sqrt7: "4 / sqrt 7 + 1 \<noteq> (0::real)" "12 / sqrt 7 + 3 \<noteq> (0::real)"
proof -
  have "0 < sqrt (7::real)" by simp
  then have "0 < 4 / sqrt 7 + (1::real)" "0 < 12 / sqrt 7 + (3::real)"
    by (simp_all add: add_pos_pos)
  then show "4 / sqrt 7 + 1 \<noteq> (0::real)" "12 / sqrt 7 + 3 \<noteq> (0::real)" by simp_all
qed

text \<open>
  C3, as amended. Let \<open>K \<le> N\<close>, let the first \<open>K\<close> pulls complete, and let a fresh
  minimizer be constructed with the same gradient function and the same \<open>momentum\<close>
  flag (any step rate, decay coefficients and offset), on the remaining argument
  sequence and on an array that holds the parameter vector as it stood after pull
  \<open>K\<close> (the same array or a copy). After the ten checkpoint fields have been restored
  into it, \<open>N - K\<close> more pulls leave the same parameter vector, the same outcome and
  the same attributes as \<open>N\<close> uninterrupted pulls.
\<close>

theorem checkpoint_round_trip:
  assumes le: "K \<le> N"
    and first: "iterate K (h, s) = ((hK, sK), None)"
    and fresh: "Adam_init a2 (fprime s) sr d dm1 dm2 (momentum s) off (args sK) = Inr (ws, fresh)"
    and copy: "h2 a2 = hK (wrt sK)"
    and rest: "iterate (N - K) (h2, restoreState (extractState sK) fresh) = ((h2', s2'), out2)"
    and full: "iterate N (h, s) = ((hN, sN), outN)"
  shows "h2' a2 = hN (wrt s) \<and> out2 = outN \<and> s2' = sN\<lparr>wrt := a2\<rparr>"
proof -
  from iterate_frame[OF first] have fr: "fprime sK = fprime s" "momentum sK = momentum s"
    "wrt sK = wrt s" by simp_all
  from fresh have "restoreState (extractState sK) fresh = sK\<lparr>wrt := a2\<rparr>"
    by (intro restore_extract[where sr = sr and d = d and ?dm1.0 = dm1 and ?dm2.0 = dm2
          and off = off and ws = ws]) (simp add: fr)
  with rest have r: "iterate (N - K) (h2, sK\<lparr>wrt := a2\<rparr>) = ((h2', s2'), out2)" by simp
  from iterate_add[OF first, of "N - K"] le full
  have f: "iterate (N - K) (hK, sK) = ((hN, sN), outN)" by simp
  from iterate_relocate[where h = hK and s = sK and ?h2.0 = h2 and ?a2.0 = a2,
      OF copy[symmetric] f] r show ?thesis
    by (auto simp: fr)
qed

theorem checkpoint_round_trip_witness:
  "(1::nat) \<le> 2
   \<and> iterate 1 (ex_store, ex_adam True [(2, False), (- 9, False)]) =
       ((ex_store(0 := [1 / 9]),
         (ex_adam True [(- 9, False)])\<lparr>n_iter := 1, est_mom1_b := Array [1],
            est_mom2_b := Array [1], decay_mom1_pow := 1 / 2, decay_mom2_pow := 3 / 4,
            step := Array [8 / 9]\<rparr>), None)
   \<and> Adam_init 5 ex_fprime (Scalar 3) (None :: unit option) (1 / 2) (1 / 5) True 2 [(- 9, False)]
       = Inr ([], (ex_adam True [(- 9, False)])\<lparr>wrt := 5, step_rate := Scalar 3,
                     decay_mom2 := 1 / 5, offset := 2\<rparr>)
   \<and> fst (fst (iterate (2 - 1)
         ((ex_store(0 := [1 / 9]))(5 := [1 / 9]),
          restoreState
            (extractState
              ((ex_adam True [(- 9, False)])\<lparr>n_iter := 1, est_mom1_b := Array [1],
                 est_mom2_b := Array [1], decay_mom1_pow := 1 / 2, decay_mom2_pow := 3 / 4,
                 step := Array [8 / 9]\<rparr>))
            ((ex_adam True [(- 9, False)])\<lparr>wrt := 5, step_rate := Scalar 3,
                     decay_mom2 := 1 / 5, offset := 2\<rparr>)))) 5
     = fst (fst (iterate 2 (ex_store, ex_adam True [(2, False), (- 9, False)]))) 0"
proof -
  let ?s = "ex_adam True [(2, False), (- 9, False)]"
  let ?sK = "(ex_adam True [(- 9, False)])\<lparr>n_iter := 1, est_mom1_b := Array [1],
            est_mom2_b := Array [1], decay_mom1_pow := 1 / 2, decay_mom2_pow := 3 / 4,
            step := Array [8 / 9]\<rparr>"
  let ?fresh = "(ex_adam True [(- 9, False)])\<lparr>wrt := 5, step_rate := Scalar 3,
                     decay_mom2 := 1 / 5, offset := 2\<rparr>"
  let ?h2 = "(ex_store(0 := [1 / 9]))(5 := [1 / 9])"
  have le: "(1::nat) \<le> 2" by simp
  have first: "iterate 1 (ex_store, ?s) = ((ex_store(0 := [1 / 9]), ?sK), None)"
    by (simp add: ex_defs real_sqrt_divide)
  have init: "Adam_init 5 ex_fprime (Scalar 3) (None :: unit option) (1 / 2) (1 / 5) True 2
                [(- 9, False)] = Inr ([], ?fresh)"
    by (simp add: Adam_init_def vdiv_def ex_adam_def)
  have fresh: "Adam_init 5 (fprime ?s) (Scalar 3) (None :: unit option) (1 / 2) (1 / 5)
                 (momentum ?s) 2 (args ?sK) = Inr ([], ?fresh)"
    using init by (simp add: ex_adam_def)
  have copy: "?h2 5 = (ex_store(0 := [1 / 9])) (wrt ?sK)"
    by (simp add: ex_adam_def)
  obtain h2' s2' out2 where
    rest: "iterate (2 - 1) (?h2, restoreState (extractState ?sK) ?fresh) = ((h2', s2'), out2)"
    by (metis prod.exhaust)
  obtain hN sN outN where full: "iterate 2 (ex_store, ?s) = ((hN, sN), outN)"
    by (metis prod.exhaust)
  have w0: "wrt ?s = 0" by (simp add: ex_adam_def)
  from checkpoint_round_trip[OF le first fresh copy rest full]
  have eq: "h2' 5 = hN 0" by (simp only: w0)
  have "fst (fst (iterate (2 - 1) (?h2, restoreState (extractState ?sK) ?fresh))) 5
     = fst (fst (iterate 2 (ex_store, ?s))) 0"
    unfolding rest full using eq by simp
  with le first init show ?thesis by blast
qed

text \<open>
  C3 as stated fails: \<open>momentum\<close> is not among the checkpoint fields. A run in
  Nesterov mode is stopped after one pull and its ten fields are restored into a fresh
  minimizer built with the default \<open>momentum = False\<close> on the same array; the second
  pull then takes the step of standard mode (here 0), and the parameter vector differs
  from the one two uninterrupted pulls produce.
\<close>

theorem checkpoint_round_trip_counterexample:
  "iterate 1 (ex_store, ex_adam True [(2, False), (- 9, False)]) =
       ((ex_store(0 := [1 / 9]),
         (ex_adam True [(- 9, False)])\<lparr>n_iter := 1, est_mom1_b := Array [1],
            est_mom2_b := Array [1], decay_mom1_pow := 1 / 2, decay_mom2_pow := 3 / 4,
            step := Array [8 / 9]\<rparr>), None)
   \<and> Adam_init 0 ex_fprime (Scalar 1) (None :: unit option) (1 / 2) (1 / 4) False 1 [(- 9, False)]
       = Inr ([], ex_adam False [(- 9, False)])
   \<and> fst (fst (iterate 1
         (ex_store(0 := [1 / 9]),
          restoreState
            (extractState
              ((ex_adam True [(- 9, False)])\<lparr>n_iter := 1, est_mom1_b := Array [1],
                 est_mom2_b := Array [1], decay_mom1_pow := 1 / 2, decay_mom2_pow := 3 / 4,
                 step := Array [8 / 9]\<rparr>))
            (ex_adam False [(- 9, False)])))) 0 = [1 / 9]
   \<and> fst (fst (iterate 2 (ex_store, ex_adam True [(2, False), (- 9, False)]))) 0
       = [1 / 9 + 2 / (12 / sqrt 7 + 3)]
   \<and> [1 / 9 + 2 / (12 / sqrt 7 + 3)] \<noteq> [1 / 9 :: real]"
proof -
  have "0 < 12 / sqrt 7 + (3::real)" by (simp add: add_pos_pos)
  then have ne: "[1 / 9 + 2 / (12 / sqrt 7 + 3)] \<noteq> [1 / 9 :: real]" by simp
  have a: "iterate 1 (ex_store, ex_adam True [(2, False), (- 9, False)]) =
       ((ex_store(0 := [1 / 9]),
         (ex_adam True [(- 9, False)])\<lparr>n_iter := 1, est_mom1_b := Array [1],
            est_mom2_b := Array [1], decay_mom1_pow := 1 / 2, decay_mom2_pow := 3 / 4,
            step := Array [8 / 9]\<rparr>), None)"
    by (simp add: ex_defs real_sqrt_divide)
  have b: "Adam_init 0 ex_fprime (Scalar 1) (None :: unit option) (1 / 2) (1 / 4) False 1
             [(- 9, False)] = Inr ([], ex_adam False [(- 9, False)])"
    by (simp add: Adam_init_def vdiv_def ex_adam_def)
  have c: "fst (fst (iterate 1
         (ex_store(0 := [1 / 9]),
          restoreState
            (extractState
              ((ex_adam True [(- 9, False)])\<lparr>n_iter := 1, est_mom1_b := Array [1],
                 est_mom2_b := Array [1], decay_mom1_pow := 1 / 2, decay_mom2_pow := 3 / 4,
                 step := Array [8 / 9]\<rparr>))
            (ex_adam False [(- 9, False)])))) 0 = [1 / 9]"
    by (simp add: ex_defs real_sqrt_divide restoreState_def extractState_def)
  have d: "fst (fst (iterate 2 (ex_store, ex_adam True [(2, False), (- 9, False)]))) 0
       = [1 / 9 + 2 / (12 / sqrt 7 + 3)]"
    by (simp add: ex_defs real_sqrt_divide numeral_2_eq_2 sqrt7)
  from a b c d ne show ?thesis by blast
qed


section \<open>Safety of the arithmetic\<close>

lemma broadcast_Inl: "broadcast f a b = Inl e \<Longrightarrow> e = ValueError shape_msg"
  by (cases a; cases b) (auto split: if_splits)

lemma vadd_Inl: "vadd a b = Inl e \<Longrightarrow> e = ValueError shape_msg"
  unfolding vadd_def by (rule broadcast_Inl)

lemma vmul_Inl: "vmul a b = Inl e \<Longrightarrow> e = ValueError shape_msg"
  unfolding vmul_def by (rule broadcast_Inl)

lemma vdiv_Inl: "vdiv a b = Inl e \<Longrightarrow> \<not> has_zero b \<Longrightarrow> e = ValueError shape_msg"
  by (auto simp: vdiv_def split: sum.splits dest: broadcast_Inl)

lemma isub_Inl: "isub w stp = Inl e \<Longrightarrow> e = ValueError shape_msg"
  by (cases stp) (auto split: if_splits)

lemma pow_half_nonneg: "nonneg v \<Longrightarrow> \<exists>r. pow_half v = Inr r \<and> nonneg r"
  by (cases v) (auto simp: list_ex_iff list_all_iff not_less)

lemma nonneg_vmap: "nonneg v \<Longrightarrow> (\<And>x. 0 \<le> x \<Longrightarrow> 0 \<le> f x) \<Longrightarrow> nonneg (vmap f v)"
  by (cases v) (auto simp: list_all_iff)

lemma nonneg_vmap_any: "(\<And>x. 0 \<le> f x) \<Longrightarrow> nonneg (vmap f v)"
  by (cases v) (auto simp: list_all_iff)

lemma broadcast_nonneg:
  assumes "broadcast f a b = Inr r" and "nonneg a" and "nonneg b"
    and "\<And>x y. 0 \<le> x \<Longrightarrow> 0 \<le> y \<Longrightarrow> 0 \<le> f x y"
  shows "nonneg r"
proof -
  have zip: "\<And>xs ys x y. \<forall>x\<in>set xs. 0 \<le> x \<Longrightarrow> \<forall>y\<in>set ys. 0 \<le> y
      \<Longrightarrow> (x, y) \<in> set (zip xs ys) \<Longrightarrow> 0 \<le> f x y"
    by (meson assms(4) set_zip_leftD set_zip_rightD)
  from assms(1,2,3) show ?thesis
    by (cases a; cases b) (auto simp: list_all_iff assms(4) zip split: if_splits)
qed

lemma positive_offset: "nonneg r \<Longrightarrow> 0 < c \<Longrightarrow> positive (vmap (\<lambda>x. x + c) r)"
  by (cases r) (auto simp: list_all_iff add_nonneg_pos)

lemma positive_sqrt_offset: "nonneg v \<Longrightarrow> 0 < c \<Longrightarrow> positive (vmap (\<lambda>x. sqrt x + c) v)"
  by (cases v) (auto simp: list_all_iff add_nonneg_pos)

lemma positive_no_zero: "positive v \<Longrightarrow> \<not> has_zero v"
  by (cases v) (auto simp: list_all_iff)

lemma vdiv_scalar_nonneg:
  assumes "vdiv v (Scalar c) = Inr r" and "nonneg v" and "0 < c"
  shows "nonneg r"
  using assms by (cases v) (auto simp: vdiv_def list_all_iff split: if_splits)

lemma second_moment_update_nonneg:
  assumes "vadd (vmap (\<lambda>x. c * x) (vmap (\<lambda>x. x ^ 2) g)) (vmap (\<lambda>x. (1 - c) * x) p) = Inr v"
    and "0 \<le> c" and "c \<le> 1" and "nonneg p"
  shows "nonneg v"
proof -
  have a: "nonneg (vmap (\<lambda>x. c * x) (vmap (\<lambda>x. x ^ 2) g))"
    using assms(2) by (cases g) (auto simp: list_all_iff)
  have b: "nonneg (vmap (\<lambda>x. (1 - c) * x) p)"
    using assms(3,4) by (intro nonneg_vmap) auto
  from assms(1) a b show ?thesis
    unfolding vadd_def by (rule broadcast_nonneg) simp
qed

lemma power_step:
  fixes p d :: real
  assumes "0 \<le> p" and "p \<le> 1" and "0 < d" and "d \<le> 1"
  shows "0 \<le> p * (1 - d)" and "p * (1 - d) < 1" and "(1 - d) * (p * (1 - d)) < 1"
proof -
  have d1: "0 \<le> 1 - d" "1 - d < 1" using assms by simp_all
  show a: "0 \<le> p * (1 - d)" using assms(1) d1(1) by simp
  have "p * (1 - d) \<le> 1 * (1 - d)" using assms(2) d1(1) by (intro mult_right_mono) simp_all
  then show b: "p * (1 - d) < 1" using d1(2) by simp
  have "(1 - d) * (p * (1 - d)) \<le> 1 * (p * (1 - d))"
    using a d1 by (intro mult_right_mono) simp_all
  with b show "(1 - d) * (p * (1 - d)) < 1" by simp
qed

lemma step_standard_Inl:
  assumes "step_standard s = Inl e" and "decay_mom2_pow s \<le> 1" and "decay_mom1_pow s \<noteq> 1"
    and "nonneg (est_mom2_b s)" and "0 < offset s"
  shows "e = ValueError shape_msg"
proof -
  obtain sq where sq: "pow_half (est_mom2_b s) = Inr sq" "nonneg sq"
    using pow_half_nonneg[OF assms(4)] by blast
  have nz: "\<not> has_zero (vmap (\<lambda>x. x + offset s) sq)"
    using positive_no_zero[OF positive_offset[OF sq(2) assms(5)]] .
  have nz1: "\<not> has_zero (Scalar (1 - decay_mom1_pow s))" using assms(3) by simp
  from assms(1,2) show ?thesis
    unfolding step_standard_def
    by (auto simp: sq split: sum.splits if_splits dest: vmul_Inl vdiv_Inl[OF _ nz] vdiv_Inl[OF _ nz1])
qed

lemma step_nesterov_Inl:
  assumes "step_nesterov s g = Inl e" and "(1 - decay_mom1 s) * decay_mom1_pow s \<noteq> 1"
    and "decay_mom1_pow s \<noteq> 1" and "decay_mom2_pow s < 1"
    and "nonneg (est_mom2_b s)" and "0 < offset s"
  shows "e = ValueError shape_msg"
proof -
  have nz1: "\<not> has_zero (Scalar (1 - (1 - decay_mom1 s) * decay_mom1_pow s))"
    using assms(2) by simp
  have nz2: "\<not> has_zero (Scalar (1 - decay_mom1_pow s))" using assms(3) by simp
  have nz3: "\<not> has_zero (Scalar (1 - decay_mom2_pow s))" using assms(4) by simp
  have root: "\<And>est_mom2 sq e'. vdiv (est_mom2_b s) (Scalar (1 - decay_mom2_pow s)) = Inr est_mom2
      \<Longrightarrow> (pow_half est_mom2 \<noteq> Inl e') \<and>
          (pow_half est_mom2 = Inr sq \<longrightarrow> \<not> has_zero (vmap (\<lambda>x. x + offset s) sq))"
  proof -
    fix est_mom2 sq e'
    assume d: "vdiv (est_mom2_b s) (Scalar (1 - decay_mom2_pow s)) = Inr est_mom2"
    have nn: "nonneg est_mom2"
      using vdiv_scalar_nonneg[OF d assms(5)] assms(4) by simp
    from pow_half_nonneg[OF nn] obtain r where r: "pow_half est_mom2 = Inr r" "nonneg r" by blast
    show "(pow_half est_mom2 \<noteq> Inl e') \<and>
          (pow_half est_mom2 = Inr sq \<longrightarrow> \<not> has_zero (vmap (\<lambda>x. x + offset s) sq))"
      using r positive_no_zero[OF positive_offset[OF r(2) assms(6)]] by auto
  qed
  from assms(1) show ?thesis
    unfolding step_nesterov_def Let_def
    by (auto split: sum.splits dest: vmul_Inl vadd_Inl vdiv_Inl[OF _ nz1] vdiv_Inl[OF _ nz2]
          vdiv_Inl[OF _ nz3] vdiv_Inl root)
qed


lemma advanced_safe:
  assumes s: "safe_state s"
    and v: "vadd (vmap (\<lambda>x. decay_mom2 s * x) (vmap (\<lambda>x. x ^ 2) g))
                 (vmap (\<lambda>x. (1 - decay_mom2 s) * x) (est_mom2_b s)) = Inr v"
  shows "safe_state (advanced s rest m v)"
    and "decay_mom1_pow (advanced s rest m v) < 1"
    and "decay_mom2_pow (advanced s rest m v) < 1"
    and "(1 - decay_mom1 (advanced s rest m v)) * decay_mom1_pow (advanced s rest m v) < 1"
    and "nonneg (est_mom2_b (advanced s rest m v))"
proof -
  from s have d1: "0 < decay_mom1 s" "decay_mom1 s \<le> 1" and d2: "0 < decay_mom2 s" "decay_mom2 s \<le> 1"
    and p1: "0 \<le> decay_mom1_pow s" "decay_mom1_pow s \<le> 1"
    and p2: "0 \<le> decay_mom2_pow s" "decay_mom2_pow s \<le> 1"
    and nn: "nonneg (est_mom2_b s)"
    by (simp_all add: safe_state_def)
  note q1 = power_step[OF p1 d1]
  note q2 = power_step[OF p2 d2]
  have nv: "nonneg v"
    using second_moment_update_nonneg[OF v _ d2(2) nn] d2(1) by simp
  show "safe_state (advanced s rest m v)"
    using d1 d2 q1(1,2) q2(1,2) nv by (simp add: safe_state_def advanced_def)
  show "decay_mom1_pow (advanced s rest m v) < 1" using q1(2) by (simp add: advanced_def)
  show "decay_mom2_pow (advanced s rest m v) < 1" using q2(2) by (simp add: advanced_def)
  show "(1 - decay_mom1 (advanced s rest m v)) * decay_mom1_pow (advanced s rest m v) < 1"
    using q1(3) by (simp add: advanced_def)
  show "nonneg (est_mom2_b (advanced s rest m v))" using nv by (simp add: advanced_def)
qed

lemma safe_state_powers:
  assumes "safe_state s"
  shows "safe_state (s\<lparr>args := rest,
            decay_mom1_pow := decay_mom1_pow s * (1 - decay_mom1 s),
            decay_mom2_pow := decay_mom2_pow s * (1 - decay_mom2 s)\<rparr>)"
proof -
  from assms have d1: "0 < decay_mom1 s" "decay_mom1 s \<le> 1" and d2: "0 < decay_mom2 s" "decay_mom2 s \<le> 1"
    and p1: "0 \<le> decay_mom1_pow s" "decay_mom1_pow s \<le> 1"
    and p2: "0 \<le> decay_mom2_pow s" "decay_mom2_pow s \<le> 1"
    and nn: "nonneg (est_mom2_b s)"
    by (simp_all add: safe_state_def)
  note q1 = power_step[OF p1 d1]
  note q2 = power_step[OF p2 d2]
  show ?thesis using d1 d2 q1(1,2) q2(1,2) nn by (simp add: safe_state_def)
qed

lemma safe_state_irrelevant [simp]:
  "safe_state (s\<lparr>est_mom1_b := m\<rparr>) = safe_state s"
  "safe_state (s\<lparr>step := stp\<rparr>) = safe_state s"
  "safe_state (s\<lparr>n_iter := n\<rparr>) = safe_state s"
  by (simp_all add: safe_state_def)

lemma next_pull_safe_cause:
  assumes safe: "safe_state s" and pull: "next_pull (h, s) = ((h', s'), out)"
  shows "safe_state s'
    \<and> (0 < offset s \<longrightarrow> (\<forall>e. out = Raised e \<longrightarrow>
          e = ValueError shape_msg
          \<or> (\<exists>a k rest. args s = (a, k) # rest \<and> fprime s (h (wrt s)) a k = Inl e)))"
proof (cases "args s")
  case Nil
  with pull safe show ?thesis by (simp add: next_pull_def)
next
  case (Cons ak rest)
  obtain a k where ak: "ak = (a, k)" by (cases ak)
  note as = Cons[unfolded ak]
  let ?s2 = "s\<lparr>args := rest, decay_mom1_pow := decay_mom1_pow s * (1 - decay_mom1 s),
              decay_mom2_pow := decay_mom2_pow s * (1 - decay_mom2 s)\<rparr>"
  note safe2 = safe_state_powers[OF safe, of rest]
  show ?thesis
  proof (cases "fprime s (h (wrt s)) a k")
    case (Inl e)
    with pull as have "out = Raised e" "s' = ?s2"
      by (simp_all add: next_pull_def Let_def)
    with safe2 as Inl show ?thesis by simp
  next
    case g: (Inr g)
    show ?thesis
    proof (cases "vadd (vmap (\<lambda>x. decay_mom1 s * x) g)
                       (vmap (\<lambda>x. (1 - decay_mom1 s) * x) (est_mom1_b s))")
      case (Inl e)
      with pull as g have "out = Raised e" "s' = ?s2"
        by (simp_all add: next_pull_def Let_def)
      with safe2 vadd_Inl[OF Inl] show ?thesis by simp
    next
      case m: (Inr m)
      show ?thesis
      proof (cases "vadd (vmap (\<lambda>x. decay_mom2 s * x) (vmap (\<lambda>x. x ^ 2) g))
                         (vmap (\<lambda>x. (1 - decay_mom2 s) * x) (est_mom2_b s))")
        case (Inl e)
        with pull as g m have "out = Raised e" "s' = ?s2\<lparr>est_mom1_b := m\<rparr>"
          by (simp_all add: next_pull_def Let_def)
        with safe2 vadd_Inl[OF Inl] show ?thesis by simp
      next
        case v: (Inr v)
        note adv = advanced_safe[OF safe v, of rest m]
        let ?st = "if \<not> momentum s then step_standard (advanced s rest m v)
                   else step_nesterov (advanced s rest m v) g"
        show ?thesis
        proof (cases ?st)
          case (Inl e)
          with pull as g m v have o: "out = Raised e" "s' = advanced s rest m v"
            by (simp_all add: next_pull_def Let_def advanced_def cong: if_cong)
          have "0 < offset s \<Longrightarrow> e = ValueError shape_msg"
          proof -
            assume "0 < offset s"
            then have off: "0 < offset (advanced s rest m v)" by (simp add: advanced_def)
            show ?thesis
            proof (cases "momentum s")
              case False
              with Inl have "step_standard (advanced s rest m v) = Inl e" by simp
              from step_standard_Inl[OF this _ _ adv(5) off] adv(2,3) show ?thesis by simp
            next
              case True
              with Inl have "step_nesterov (advanced s rest m v) g = Inl e" by simp
              from step_nesterov_Inl[OF this _ _ adv(3) adv(5) off] adv(2,4) show ?thesis by simp
            qed
          qed
          with o adv(1) show ?thesis by simp
        next
          case stp: (Inr stp)
          show ?thesis
          proof (cases "isub (h (wrt s)) stp")
            case (Inl e)
            with pull as g m v stp have "out = Raised e" "s' = advanced s rest m v"
              by (simp_all add: next_pull_def Let_def advanced_def cong: if_cong)
            with adv(1) isub_Inl[OF Inl] show ?thesis by simp
          next
            case (Inr w)
            with pull as g m v stp have
              "\<exists>r. out = Yielded r"
              "s' = (advanced s rest m v)\<lparr>step := stp, n_iter := n_iter s + 1\<rparr>"
              by (auto simp add: next_pull_def Let_def advanced_def cong: if_cong)
            with adv(1) show ?thesis by auto
          qed
        qed
      qed
    qed
  qed
qed

lemma next_pull_safe:
  assumes "safe_state s" and "next_pull (h, s) = ((h', s'), out)"
  shows "safe_state s'"
  using next_pull_safe_cause[OF assms] by simp

lemma next_pull_raise_cause:
  assumes "safe_state s" and "0 < offset s" and "next_pull (h, s) = ((h', s'), Raised e)"
  shows "e = ValueError shape_msg
    \<or> (\<exists>a k rest. args s = (a, k) # rest \<and> fprime s (h (wrt s)) a k = Inl e)"
  using next_pull_safe_cause[OF assms(1,3)] assms(2) by simp

lemma iterate_safe:
  assumes "safe_state s" and "iterate n (h, s) = ((h', s'), out)"
  shows "safe_state s'"
  using assms
proof (induction n arbitrary: h s)
  case 0
  then show ?case by simp
next
  case (Suc n)
  from Suc.prems(2) show ?case
  proof (cases rule: iterate_Suc_cases)
    case (yielded st' r)
    obtain h1 s1 where st': "st' = (h1, s1)" by (cases st')
    from next_pull_safe[OF Suc.prems(1) yielded(1)[unfolded st']]
    have "safe_state s1" .
    from Suc.IH[OF this yielded(2)[unfolded st']] show ?thesis .
  next
    case (raised e)
    from next_pull_safe[OF Suc.prems(1) raised(1)] show ?thesis .
  next
    case stopped
    from next_pull_safe[OF Suc.prems(1) stopped(1)] show ?thesis .
  qed
qed

text \<open>
  C9. In every state reached from the constructor, by any number of pulls and whatever
  their outcome, \<open>est_mom2_b\<close> is non-negative at every position, so its square root
  is real. With \<open>offset > 0\<close> the denominator \<open>sqrt v + offset\<close> is positive at every
  position, and the next pull raises no arithmetic exception in either mode: if it
  raises, the exception is the gradient function's own or a shape mismatch between the
  caller's arrays.
\<close>

theorem second_moment_nonneg:
  assumes init: "Adam_init a0 f sr d dm1 dm2 mo off items = Inr (ws, s0)"
    and run: "iterate n (h, s0) = ((h1, s1), out)"
  shows "nonneg (est_mom2_b s1)
    \<and> (0 < off \<longrightarrow>
         positive (vmap (\<lambda>x. sqrt x + offset s1) (est_mom2_b s1))
         \<and> (\<forall>h2 s2 e. next_pull (h1, s1) = ((h2, s2), Raised e) \<longrightarrow>
               e = ValueError shape_msg
               \<or> (\<exists>a k rest. args s1 = (a, k) # rest \<and> fprime s1 (h1 (wrt s1)) a k = Inl e)))"
proof -
  note s0 = Adam_init_Inr[OF init]
  have "safe_state s0" using s0(2-5) by (simp add: s0(1) safe_state_def)
  from iterate_safe[OF this run] have safe: "safe_state s1" .
  then have nn: "nonneg (est_mom2_b s1)" by (simp add: safe_state_def)
  from iterate_frame[OF run] have o: "offset s1 = off" by (simp add: s0(1))
  show ?thesis
    using nn o positive_sqrt_offset[OF nn] next_pull_raise_cause[OF safe] by auto
qed

theorem second_moment_nonneg_witness:
  "Adam_init 0 ex_fprime (Scalar 1) (None :: unit option) (1 / 2) (1 / 4) False 1
      [(2, False), (3, True)]
     = Inr ([], ex_adam False [(2, False), (3, True)])
   \<and> iterate 1 (ex_store, ex_adam False [(2, False), (3, True)]) =
       ((ex_store(0 := [1 / 2]),
         (ex_adam False [(3, True)])\<lparr>n_iter := 1, est_mom1_b := Array [1],
            est_mom2_b := Array [1], decay_mom1_pow := 1 / 2, decay_mom2_pow := 3 / 4,
            step := Array [1 / 2]\<rparr>), None)
   \<and> (0::real) < 1
   \<and> nonneg (Array [1])
   \<and> positive (vmap (\<lambda>x. sqrt x + 1) (Array [1]))
   \<and> next_pull (ex_store(0 := [1 / 2]),
         (ex_adam False [(3, True)])\<lparr>n_iter := 1, est_mom1_b := Array [1],
            est_mom2_b := Array [1], decay_mom1_pow := 1 / 2, decay_mom2_pow := 3 / 4,
            step := Array [1 / 2]\<rparr>) =
       ((ex_store(0 := [1 / 2]),
         (ex_adam False [])\<lparr>n_iter := 1, est_mom1_b := Array [1],
            est_mom2_b := Array [1], decay_mom1_pow := 1 / 4, decay_mom2_pow := 9 / 16,
            step := Array [1 / 2]\<rparr>), Raised (External ''gradient failed''))
   \<and> (External ''gradient failed'' = ValueError shape_msg
        \<or> ex_fprime [1 / 2] 3 True = Inl (External ''gradient failed''))"
proof -
  let ?sK = "(ex_adam False [(3, True)])\<lparr>n_iter := 1, est_mom1_b := Array [1],
            est_mom2_b := Array [1], decay_mom1_pow := 1 / 2, decay_mom2_pow := 3 / 4,
            step := Array [1 / 2]\<rparr>"
  have init: "Adam_init 0 ex_fprime (Scalar 1) (None :: unit option) (1 / 2) (1 / 4) False 1
      [(2, False), (3, True)]
     = Inr ([], ex_adam False [(2, False), (3, True)])"
    by (simp add: Adam_init_def vdiv_def ex_adam_def)
  have run: "iterate 1 (ex_store, ex_adam False [(2, False), (3, True)]) =
       ((ex_store(0 := [1 / 2]), ?sK), None)"
    by (simp add: ex_defs real_sqrt_divide)
  have pos: "(0::real) < 1" by simp
  have pull: "next_pull (ex_store(0 := [1 / 2]), ?sK) =
       ((ex_store(0 := [1 / 2]),
         (ex_adam False [])\<lparr>n_iter := 1, est_mom1_b := Array [1],
            est_mom2_b := Array [1], decay_mom1_pow := 1 / 4, decay_mom2_pow := 9 / 16,
            step := Array [1 / 2]\<rparr>), Raised (External ''gradient failed''))"
    by (simp add: ex_defs)
  note concl = second_moment_nonneg[OF init run]
  from concl have a: "nonneg (est_mom2_b ?sK)" by blast
  from concl pos have b: "positive (vmap (\<lambda>x. sqrt x + offset ?sK) (est_mom2_b ?sK))" by blast
  from concl pos pull have c: "External ''gradient failed'' = ValueError shape_msg
    \<or> (\<exists>a k rest. args ?sK = (a, k) # rest
          \<and> fprime ?sK ((ex_store(0 := [1 / 2])) (wrt ?sK)) a k = Inl (External ''gradient failed''))"
    by blast
  from a have a': "nonneg (Array [1])" by (simp add: ex_adam_def)
  from b have b': "positive (vmap (\<lambda>x. sqrt x + 1) (Array [1]))" by (simp add: ex_adam_def)
  from c have c': "External ''gradient failed'' = ValueError shape_msg
        \<or> ex_fprime [1 / 2] 3 True = Inl (External ''gradient failed'')"
    by (auto simp add: ex_adam_def)
  from init run pos a' b' pull c' show ?thesis by blast
qed

end
